theory Spec2Isabelle
  imports Complex_Main
begin

section \<open>Shallow embedding of the OCR recognition service\<close>

text \<open>
  Each function of the Python sources is modelled with the checks and writes it makes, in
  its order. A table row is what models.py declares for its class. Where a function
  reaches an object through attribute names or constructor keywords, the object is a
  dictionary of attributes: reading a name the object does not have raises
  \<open>AttributeError\<close>, and a keyword the class does not have raises \<open>TypeError\<close>. A raised
  exception is the \<open>Inl\<close> branch of a sum, \<open>None\<close> is \<open>None\<close>, and the data base
  session is an explicit store that the function returns updated. The user-facing
  messages of the sources are Chinese; the model carries an English rendering of each.
  Library calls whose result the sources do not determine (the JWT decoder, the password
  hash, the content hash, the clock, the OCR engines) are parameters of the model.
  Logging is left out, except for the attributes a logging call reads.
\<close>

subsection \<open>Python values shared by the models\<close>

datatype py_error =
    ValueError string
  | AttributeError string string
  | TypeError string
  | OtherException string

text \<open>\<open>d.get(k, default)\<close> on a dictionary.\<close>

definition dict_get :: "('k \<rightharpoonup> 'v) \<Rightarrow> 'k \<Rightarrow> 'v \<Rightarrow> 'v" where
  "dict_get d k dflt = (case d k of None \<Rightarrow> dflt | Some v \<Rightarrow> v)"

subsection \<open>Engine selection (services/ocr\_service.py, config.py)\<close>

text \<open>
  \<open>OCR_ENGINE_PRIORITY\<close> is a dictionary from tier name to a list of engine names. A
  dictionary keeps insertion order, so it is an association list here.
\<close>

definition OCR_ENGINE_PRIORITY :: "(string \<times> string list) list" where
  "OCR_ENGINE_PRIORITY =
     [(''free'', [''paddleocr'', ''tesseract'', ''easyocr'']),
      (''premium'', [''baidu_ocr'', ''tencent_ocr'', ''aliyun_ocr'', ''azure_ocr'']),
      (''auto'', [''baidu_ocr'', ''paddleocr'', ''tesseract''])]"

text \<open>
  \<open>for engine in OCR_ENGINE_PRIORITY\<close> iterates over the dictionary itself, which in
  Python yields its keys, in insertion order.
\<close>

definition dict_iter :: "('k \<times> 'v) list \<Rightarrow> 'k list" where
  "dict_iter d = map fst d"

text \<open>
  \<open>self.engines\<close> maps the name of each engine that initialised to \<open>True\<close>;
  \<open>name in self.engines\<close> is key membership. The loop returns at the first hit.
\<close>

definition is_live :: "(string \<rightharpoonup> bool) \<Rightarrow> string \<Rightarrow> bool" where
  "is_live engines name = (engines name \<noteq> None)"

fun first_live :: "(string \<rightharpoonup> bool) \<Rightarrow> string list \<Rightarrow> string option" where
  "first_live engines [] = None"
| "first_live engines (engine # rest) =
     (if is_live engines engine then Some engine else first_live engines rest)"

text \<open>The fallback loop and the error after it.\<close>

definition priority_walk :: "(string \<rightharpoonup> bool) \<Rightarrow> py_error + string" where
  "priority_walk engines =
     (case first_live engines (dict_iter OCR_ENGINE_PRIORITY) of
        Some engine \<Rightarrow> Inr engine
      | None \<Rightarrow> Inl (ValueError ''no OCR engine available''))"

text \<open>
  \<open>preference and preference in self.engines\<close>: \<open>None\<close> and the empty string are both
  false in Python.
\<close>

definition select_engine :: "(string \<rightharpoonup> bool) \<Rightarrow> string option \<Rightarrow> py_error + string" where
  "select_engine engines preference =
     (case preference of
        None \<Rightarrow> priority_walk engines
      | Some p \<Rightarrow> if p \<noteq> [] \<and> is_live engines p then Inr p else priority_walk engines)"

text \<open>The names under which \<open>_init_engines\<close> registers an engine.\<close>

definition registry_names :: "string set" where
  "registry_names =
     {''tesseract'', ''paddleocr'', ''easyocr'', ''baidu'', ''tencent'', ''ali'', ''azure''}"

subsection \<open>Plan gate (utils/security.py)\<close>

record User =
  user_id :: int
  username :: string
  email :: string
  hashed_password :: string
  plan_type :: string
  api_quota :: int
  is_active :: bool
  is_admin :: bool

definition plan_hierarchy :: "string \<rightharpoonup> int" where
  "plan_hierarchy = [''free'' \<mapsto> 0, ''premium'' \<mapsto> 1, ''enterprise'' \<mapsto> 2]"

definition check_user_permissions :: "User \<Rightarrow> string \<Rightarrow> bool" where
  "check_user_permissions user required_plan =
     (let user_level = dict_get plan_hierarchy (plan_type user) 0;
          required_level = dict_get plan_hierarchy required_plan 0
      in user_level \<ge> required_level)"

subsection \<open>Token verification (utils/security.py)\<close>

text \<open>
  A decoded claims set is a JSON object. \<open>jwt.decode\<close> belongs to a library: it either
  returns the claims, raises \<open>JWTError\<close> (bad signature, expired, malformed) or raises some
  other exception. The decoder is a parameter of \<open>verify_token\<close>.
\<close>

datatype json = JNull | JStr string | JNum int | JBool bool

type_synonym claims = "(string \<times> json) list"

datatype decode_outcome =
    Decoded claims
  | RaisesJWTError string
  | RaisesException string

text \<open>\<open>payload.get("sub")\<close>: \<open>None\<close> when the key is absent, and also when it holds null.\<close>

definition claims_get :: "claims \<Rightarrow> string \<Rightarrow> json option" where
  "claims_get payload k =
     (case map_of payload k of None \<Rightarrow> None | Some JNull \<Rightarrow> None | Some v \<Rightarrow> Some v)"

text \<open>
  The result is a sum so that an exception leaving \<open>verify_token\<close> would be visible as
  \<open>Inl\<close>; both handlers of the source return \<open>None\<close>.
\<close>

definition verify_token :: "(string \<Rightarrow> decode_outcome) \<Rightarrow> string \<Rightarrow> py_error + claims option" where
  "verify_token jwt_decode token =
     (case jwt_decode token of
        Decoded payload \<Rightarrow>
          (case claims_get payload ''sub'' of
             None \<Rightarrow> Inr None
           | Some sub \<Rightarrow> Inr (Some payload))
      | RaisesJWTError e \<Rightarrow> Inr None
      | RaisesException e \<Rightarrow> Inr None)"

subsection \<open>Configuration (config.py)\<close>

record Settings =
  upload_dir :: string
  max_file_size :: nat
  allowed_extensions :: "string list"
  free_user_daily_quota :: int
  premium_user_daily_quota :: int

text \<open>The defaults of the \<open>Settings\<close> class; every field can be overridden at start-up.\<close>

definition settings :: Settings where
  "settings =
     \<lparr>upload_dir = ''uploads'',
      max_file_size = 50 * 1024 * 1024,
      allowed_extensions = [''.pdf'', ''.png'', ''.jpg'', ''.jpeg'', ''.tiff'', ''.bmp''],
      free_user_daily_quota = 100,
      premium_user_daily_quota = 10000\<rparr>"

definition SUPPORTED_FILE_TYPES :: "string \<rightharpoonup> string" where
  "SUPPORTED_FILE_TYPES =
     map_of [(''.pdf'', ''application/pdf''), (''.png'', ''image/png''),
             (''.jpg'', ''image/jpeg''), (''.jpeg'', ''image/jpeg''),
             (''.tiff'', ''image/tiff''), (''.bmp'', ''image/bmp''),
             (''.webp'', ''image/webp'')]"

subsection \<open>Strings and paths of the standard library\<close>

text \<open>
  Strings are byte strings; the character predicates and \<open>lower\<close> are the ASCII ones.
\<close>

type_synonym bytes = string

definition isupper :: "char \<Rightarrow> bool" where
  "isupper c = (let n = (of_char c :: nat) in 65 \<le> n \<and> n \<le> 90)"

definition islower :: "char \<Rightarrow> bool" where
  "islower c = (let n = (of_char c :: nat) in 97 \<le> n \<and> n \<le> 122)"

definition isdigit :: "char \<Rightarrow> bool" where
  "isdigit c = (let n = (of_char c :: nat) in 48 \<le> n \<and> n \<le> 57)"

definition lower_char :: "char \<Rightarrow> char" where
  "lower_char c =
     (case map_of (zip ''ABCDEFGHIJKLMNOPQRSTUVWXYZ'' ''abcdefghijklmnopqrstuvwxyz'') c of
        None \<Rightarrow> c
      | Some l \<Rightarrow> l)"

definition lower :: "string \<Rightarrow> string" where
  "lower s = map lower_char s"

definition startswith :: "bytes \<Rightarrow> bytes \<Rightarrow> bool" where
  "startswith s p = (take (length p) s = p)"

fun split_sep :: "char \<Rightarrow> string \<Rightarrow> string list" where
  "split_sep sep [] = [[]]"
| "split_sep sep (c # cs) =
     (if c = sep then [] # split_sep sep cs
      else (case split_sep sep cs of [] \<Rightarrow> [[c]] | w # ws \<Rightarrow> (c # w) # ws))"

text \<open>
  \<open>Path(p).name\<close> on a POSIX path: the last component, where empty components and
  \<open>.\<close> components do not count.
\<close>

definition path_name :: "string \<Rightarrow> string" where
  "path_name p =
     (case filter (\<lambda>part. part \<noteq> [] \<and> part \<noteq> ''.'') (split_sep CHR ''/'' p) of
        [] \<Rightarrow> []
      | part # parts \<Rightarrow> last (part # parts))"

definition rfind :: "string \<Rightarrow> char \<Rightarrow> nat option" where
  "rfind s c =
     (if c \<in> set s then Some (length s - Suc (length (takeWhile (\<lambda>x. x \<noteq> c) (rev s))))
      else None)"

text \<open>
  \<open>Path(p).suffix\<close>: with \<open>i\<close> the last dot of the name, the suffix is \<open>name[i:]\<close> when
  \<open>0 < i < len(name) - 1\<close> and empty otherwise.
\<close>

definition path_suffix :: "string \<Rightarrow> string" where
  "path_suffix p =
     (let name = path_name p in
      case rfind name CHR ''.'' of
        None \<Rightarrow> []
      | Some i \<Rightarrow> if 0 < i \<and> i < length name - 1 then drop i name else [])"

subsection \<open>File validation (services/file\_service.py)\<close>

text \<open>
  The result dictionary \<open>{"valid", "error", "code"}\<close>. The message of an oversize file
  carries the limit in megabytes, formatted as a float; the model keeps the text before it.
\<close>

datatype validation = Valid | Invalid (error: string) (code: string)

definition magic_numbers :: "string \<rightharpoonup> bytes list" where
  "magic_numbers =
     map_of [(''.pdf'', [''%PDF'']),
             (''.png'', [[CHR 0x89, CHR ''P'', CHR ''N'', CHR ''G'']]),
             (''.jpg'', [[CHR 0xFF, CHR 0xD8, CHR 0xFF]]),
             (''.jpeg'', [[CHR 0xFF, CHR 0xD8, CHR 0xFF]]),
             (''.tiff'', [[CHR ''I'', CHR ''I'', CHR ''*'', CHR 0x00],
                          [CHR ''M'', CHR ''M'', CHR 0x00, CHR ''*'']]),
             (''.bmp'', [''BM'']),
             (''.webp'', [''RIFF''])]"

fun any_magic :: "bytes \<Rightarrow> bytes list \<Rightarrow> bool" where
  "any_magic file_content [] = False"
| "any_magic file_content (magic # rest) =
     (if startswith file_content magic then True else any_magic file_content rest)"

definition validate_file_content :: "bytes \<Rightarrow> string \<Rightarrow> bool" where
  "validate_file_content file_content ext =
     (if length file_content < 4 then False
      else (let expected_magic = dict_get magic_numbers ext [] in
            if expected_magic = [] then True
            else any_magic file_content expected_magic))"

text \<open>
  None of the operations in the \<open>try\<close> block of \<open>validate_file\<close> raises on a string and a
  byte string, so the \<open>VALIDATION_ERROR\<close> handler has no branch here.
\<close>

definition validate_file :: "Settings \<Rightarrow> string \<Rightarrow> bytes \<Rightarrow> validation" where
  "validate_file cfg filename file_content =
     (let ext = lower (path_suffix filename) in
      if ext \<notin> set (allowed_extensions cfg)
        then Invalid (''unsupported file type: '' @ ext) ''UNSUPPORTED_FILE_TYPE''
      else if length file_content > max_file_size cfg
        then Invalid ''file size exceeds the limit'' ''FILE_TOO_LARGE''
      else if \<not> validate_file_content file_content ext
        then Invalid ''file content does not match the extension'' ''INVALID_FILE_CONTENT''
      else Valid)"

subsection \<open>Password policy and input formats (utils/security.py, services/auth\_service.py)\<close>

definition validate_password_strength :: "string \<Rightarrow> bool" where
  "validate_password_strength password =
     (if length password < 8 then False
      else (let has_upper = (\<exists>c \<in> set password. isupper c);
                has_lower = (\<exists>c \<in> set password. islower c);
                has_digit = (\<exists>c \<in> set password. isdigit c);
                has_special = (\<exists>c \<in> set password. c \<in> set ''!@#$%^&*()_+-=[]{}|;:,.<>?'')
            in (of_bool has_upper + of_bool has_lower + of_bool has_digit + of_bool has_special :: nat)
                 \<ge> 3))"

text \<open>
  \<open>re.match\<close> anchors at the start, and \<open>$\<close> matches at the end of the string or just
  before a newline that ends it.
\<close>

definition strip_final_newline :: "string \<Rightarrow> string" where
  "strip_final_newline s = (if s \<noteq> [] \<and> last s = CHR 0x0A then butlast s else s)"

definition isalpha :: "char \<Rightarrow> bool" where
  "isalpha c = (isupper c \<or> islower c)"

text \<open>The pattern \<open>^[a-zA-Z0-9_]{3,50}$\<close>.\<close>

definition validate_username :: "string \<Rightarrow> bool" where
  "validate_username name =
     (let s = strip_final_newline name in
      3 \<le> length s \<and> length s \<le> 50 \<and>
      (\<forall>c \<in> set s. isalpha c \<or> isdigit c \<or> c = CHR ''_''))"

text \<open>
  The pattern \<open>^[a-zA-Z0-9._%+-]+@[a-zA-Z0-9.-]+\.[a-zA-Z]{2,}$\<close>. No class of the pattern
  holds \<open>@\<close>, so the local part is what precedes the first \<open>@\<close>; the last group holds no
  dot, so it is what follows the last dot.
\<close>

definition validate_email :: "string \<Rightarrow> bool" where
  "validate_email address =
     (let s = strip_final_newline address;
          local_part = takeWhile (\<lambda>c. c \<noteq> CHR ''@'') s;
          rest = dropWhile (\<lambda>c. c \<noteq> CHR ''@'') s;
          host = tl rest;
          tld = rev (takeWhile (\<lambda>c. c \<noteq> CHR ''.'') (rev host));
          domain_part = take (length host - Suc (length tld)) host
      in local_part \<noteq> [] \<and>
         (\<forall>c \<in> set local_part. isalpha c \<or> isdigit c \<or> c \<in> set ''._%+-'') \<and>
         rest \<noteq> [] \<and>
         CHR ''.'' \<in> set host \<and>
         domain_part \<noteq> [] \<and>
         (\<forall>c \<in> set domain_part. isalpha c \<or> isdigit c \<or> c \<in> set ''.-'') \<and>
         2 \<le> length tld \<and>
         (\<forall>c \<in> set tld. isalpha c))"

subsection \<open>Calendar dates\<close>

record date =
  year :: int
  month :: nat
  day :: nat

definition is_leap :: "int \<Rightarrow> bool" where
  "is_leap y = (y mod 4 = 0 \<and> (y mod 100 \<noteq> 0 \<or> y mod 400 = 0))"

definition days_in_month :: "int \<Rightarrow> nat \<Rightarrow> nat" where
  "days_in_month y m =
     (if m = 2 then (if is_leap y then 29 else 28)
      else if m = 4 \<or> m = 6 \<or> m = 9 \<or> m = 11 then 30
      else 31)"

definition next_day :: "date \<Rightarrow> date" where
  "next_day d =
     (if day d < days_in_month (year d) (month d) then d\<lparr>day := day d + 1\<rparr>
      else if month d < 12 then d\<lparr>month := month d + 1, day := 1\<rparr>
      else \<lparr>year = year d + 1, month = 1, day = 1\<rparr>)"

text \<open>\<open>d + timedelta(days=n)\<close> for \<open>n \<ge> 0\<close>.\<close>

fun add_days :: "nat \<Rightarrow> date \<Rightarrow> date" where
  "add_days 0 d = d"
| "add_days (Suc n) d = add_days n (next_day d)"

text \<open>\<open>d.replace(day=1)\<close>.\<close>

definition replace_day_1 :: "date \<Rightarrow> date" where
  "replace_day_1 d = d\<lparr>day := 1\<rparr>"

subsection \<open>Python objects and the mapped classes (models.py)\<close>

text \<open>
  An object is a dictionary from attribute name to value. Reading an attribute the object
  does not have raises \<open>AttributeError\<close>; assigning one always works, but a commit stores
  the columns of the class only.
\<close>

type_synonym text_block = "string \<times> real \<times> int list"

datatype pyval =
    PNone
  | PInt int
  | PStr string
  | PDate date
  | PBool bool
  | PReal real
  | PTime nat
  | PBlocks "text_block list"

type_synonym py_object = "string \<rightharpoonup> pyval"

definition getattr :: "string \<Rightarrow> py_object \<Rightarrow> string \<Rightarrow> py_error + pyval" where
  "getattr cls obj name =
     (case obj name of None \<Rightarrow> Inl (AttributeError cls name) | Some v \<Rightarrow> Inr v)"

definition stored :: "string list \<Rightarrow> py_object \<Rightarrow> py_object" where
  "stored attrs obj = obj |` set attrs"

text \<open>
  The constructor a mapped class gets from the ORM takes keywords: a keyword that is not
  an attribute of the class raises \<open>TypeError\<close>, the first such keyword in the order
  written (the message is the ORM's, without its quotation marks); attributes that are
  not given read as \<open>None\<close>.
\<close>

definition construct :: "string \<Rightarrow> string list \<Rightarrow> (string \<times> pyval) list \<Rightarrow> py_error + py_object" where
  "construct cls attrs kwargs =
     (case find (\<lambda>kw. fst kw \<notin> set attrs) kwargs of
        Some kw \<Rightarrow> Inl (TypeError (fst kw @ '' is an invalid keyword argument for '' @ cls))
      | None \<Rightarrow> Inr (\<lambda>a. if a \<in> set attrs then Some (dict_get (map_of kwargs) a PNone) else None))"

text \<open>The columns and relationships the classes of models.py declare.\<close>

definition User_attrs :: "string list" where
  "User_attrs =
     [''id'', ''username'', ''email'', ''hashed_password'', ''plan_type'', ''api_quota'',
      ''is_active'', ''is_admin'', ''created_at'', ''updated_at'', ''files'', ''api_usage'']"

definition OCRTask_attrs :: "string list" where
  "OCRTask_attrs =
     [''id'', ''file_id'', ''engine_type'', ''language'', ''status'', ''priority'', ''progress'',
      ''start_time'', ''end_time'', ''processing_time'', ''error_message'', ''cost'',
      ''created_at'', ''options'', ''file'', ''results'']"

definition OCRResult_attrs :: "string list" where
  "OCRResult_attrs =
     [''id'', ''task_id'', ''page_number'', ''extracted_text'', ''confidence'', ''word_count'',
      ''bounding_boxes'', ''language_detected'', ''processing_time'', ''created_at'', ''task'']"

definition APIUsage_attrs :: "string list" where
  "APIUsage_attrs =
     [''id'', ''user_id'', ''endpoint'', ''method'', ''status_code'', ''response_time'',
      ''request_size'', ''response_size'', ''cost'', ''ip_address'', ''user_agent'',
      ''request_time'', ''user'']"

text \<open>
  The object the session loads for a \<open>User\<close> row. Time stamps and related rows are not
  part of the model; their attributes exist.
\<close>

definition user_object :: "User \<Rightarrow> py_object" where
  "user_object u =
     [''id'' \<mapsto> PInt (user_id u),
      ''username'' \<mapsto> PStr (username u),
      ''email'' \<mapsto> PStr (email u),
      ''hashed_password'' \<mapsto> PStr (hashed_password u),
      ''plan_type'' \<mapsto> PStr (plan_type u),
      ''api_quota'' \<mapsto> PInt (api_quota u),
      ''is_active'' \<mapsto> PBool (is_active u),
      ''is_admin'' \<mapsto> PBool (is_admin u),
      ''created_at'' \<mapsto> PNone,
      ''updated_at'' \<mapsto> PNone,
      ''files'' \<mapsto> PNone,
      ''api_usage'' \<mapsto> PNone]"

text \<open>
  An \<open>OCRTask\<close> row with the given key, file, engine and status, and the defaults of the
  class in its other columns.
\<close>

definition ocr_task_row :: "int \<Rightarrow> int \<Rightarrow> string \<Rightarrow> string \<Rightarrow> py_object" where
  "ocr_task_row tid fid engine st =
     [''id'' \<mapsto> PInt tid,
      ''file_id'' \<mapsto> PInt fid,
      ''engine_type'' \<mapsto> PStr engine,
      ''language'' \<mapsto> PStr ''chi_sim+eng'',
      ''status'' \<mapsto> PStr st,
      ''priority'' \<mapsto> PInt 0,
      ''progress'' \<mapsto> PInt 0,
      ''start_time'' \<mapsto> PNone,
      ''end_time'' \<mapsto> PNone,
      ''processing_time'' \<mapsto> PNone,
      ''error_message'' \<mapsto> PNone,
      ''cost'' \<mapsto> PReal 0,
      ''created_at'' \<mapsto> PNone,
      ''options'' \<mapsto> PNone,
      ''file'' \<mapsto> PNone,
      ''results'' \<mapsto> PNone]"

subsection \<open>Registration (services/auth\_service.py)\<close>

text \<open>
  \<open>UserQuota\<close> rows as \<open>_create_user_quota\<close> builds them, which is also how
  models.py declares them. A reset time is always a midnight, so it is the date of that
  midnight.
\<close>

record UserQuota =
  quota_id :: int
  quota_user_id :: int
  quota_type :: string
  quota_limit :: int
  quota_used :: int
  reset_time :: date

record AuthStore =
  users :: "User list"
  user_quotas :: "UserQuota list"

text \<open>The key a fresh row receives: one more than the largest key in the table.\<close>

definition fresh_id :: "int list \<Rightarrow> int" where
  "fresh_id ids = fold max ids 0 + 1"

definition create_user_quota :: "Settings \<Rightarrow> date \<Rightarrow> AuthStore \<Rightarrow> int \<Rightarrow> string \<Rightarrow> AuthStore" where
  "create_user_quota cfg today db uid plan_name =
     (let daily_quota =
            \<lparr>quota_id = fresh_id (map quota_id (user_quotas db)),
             quota_user_id = uid, quota_type = ''daily'',
             quota_limit = (if plan_name = ''free'' then free_user_daily_quota cfg
                            else premium_user_daily_quota cfg),
             quota_used = 0,
             reset_time = add_days 1 today\<rparr>;
          monthly_limit = (if plan_name = ''free'' then free_user_daily_quota cfg * 30
                           else premium_user_daily_quota cfg * 30);
          monthly_quota =
            \<lparr>quota_id = fresh_id (map quota_id (user_quotas db)) + 1,
             quota_user_id = uid, quota_type = ''monthly'',
             quota_limit = monthly_limit,
             quota_used = 0,
             reset_time = add_days 32 (replace_day_1 today)\<rparr>
      in db\<lparr>user_quotas := user_quotas db @ [daily_quota, monthly_quota]\<rparr>)"

text \<open>
  \<open>register_user\<close>. The password hash is a library call that returns the hash or raises
  (\<open>None\<close> here), in which case \<open>get_password_hash\<close> raises its own \<open>ValueError\<close>. Every
  handler rolls the session back and raises a \<open>ValueError\<close>, so on \<open>Inl\<close> the store is the
  one the call started with. The session itself is taken not to fail. The duplicate query
  of the source has no ordering; the model takes the first matching row of the table.
\<close>

definition register_user ::
  "Settings \<Rightarrow> (string \<Rightarrow> string option) \<Rightarrow> date \<Rightarrow> AuthStore \<Rightarrow>
   string \<Rightarrow> string \<Rightarrow> string \<Rightarrow> string \<Rightarrow> bool \<Rightarrow> (py_error + User) \<times> AuthStore" where
  "register_user cfg pwd_hash today db name address password plan_name admin =
     (if \<not> validate_username name
        then (Inl (ValueError ''username format is not valid''), db)
      else if \<not> validate_email address
        then (Inl (ValueError ''email format is not valid''), db)
      else if \<not> validate_password_strength password
        then (Inl (ValueError ''password is not strong enough''), db)
      else (case find (\<lambda>u. username u = name \<or> email u = address) (users db) of
              Some existing_user \<Rightarrow>
                (if username existing_user = name
                 then (Inl (ValueError ''username already exists''), db)
                 else (Inl (ValueError ''email already registered''), db))
            | None \<Rightarrow>
                (case pwd_hash password of
                   None \<Rightarrow> (Inl (ValueError ''password processing failed''), db)
                 | Some hashed \<Rightarrow>
                     (let user = \<lparr>user_id = fresh_id (map user_id (users db)),
                                  username = name,
                                  email = address,
                                  hashed_password = hashed,
                                  plan_type = plan_name,
                                  api_quota = (if plan_name = ''free'' then free_user_daily_quota cfg
                                               else premium_user_daily_quota cfg),
                                  is_active = True,
                                  is_admin = admin\<rparr>;
                          db1 = db\<lparr>users := users db @ [user]\<rparr>
                      in (Inr user, create_user_quota cfg today db1 (user_id user) plan_name)))))"

subsection \<open>Administrator bootstrap (init\_admin.py)\<close>

fun update_first :: "('a \<Rightarrow> bool) \<Rightarrow> ('a \<Rightarrow> 'a) \<Rightarrow> 'a list \<Rightarrow> 'a list" where
  "update_first P f [] = []"
| "update_first P f (x # xs) = (if P x then f x # xs else x # update_first P f xs)"

text \<open>
  \<open>init_admin_user\<close>: the handler rolls back and raises again, so an error of
  \<open>register_user\<close> is the error of the run, which \<open>main\<close> turns into exit status 1.
\<close>

definition init_admin_user ::
  "Settings \<Rightarrow> (string \<Rightarrow> string option) \<Rightarrow> date \<Rightarrow> AuthStore \<Rightarrow> (py_error + User) \<times> AuthStore" where
  "init_admin_user cfg pwd_hash today db =
     (case find (\<lambda>u. username u = ''admin'') (users db) of
        Some existing_admin \<Rightarrow>
          (if \<not> is_admin existing_admin
           then (Inr (existing_admin\<lparr>is_admin := True\<rparr>),
                 db\<lparr>users := update_first (\<lambda>u. username u = ''admin'')
                                 (\<lambda>u. u\<lparr>is_admin := True\<rparr>) (users db)\<rparr>)
           else (Inr existing_admin, db))
      | None \<Rightarrow>
          register_user cfg pwd_hash today db
            ''admin'' ''admin@ocr-system.com'' ''123456'' ''enterprise'' True)"

subsection \<open>Plan upgrade endpoint (api/users.py)\<close>

datatype http_error = HTTPException (status_code: nat) (detail: string)

text \<open>What leaves the endpoint instead of a response: an HTTP error or a Python exception.\<close>

datatype raised = RaisedHTTP http_error | RaisedPy py_error

record UpgradeResponse =
  message :: string
  old_plan :: pyval
  new_plan :: string

definition valid_plans :: "string list" where
  "valid_plans = [''free'', ''basic'', ''premium'', ''enterprise'']"

definition plan_levels :: "string \<rightharpoonup> int" where
  "plan_levels = [''free'' \<mapsto> 0, ''basic'' \<mapsto> 1, ''premium'' \<mapsto> 2, ''enterprise'' \<mapsto> 3]"

text \<open>\<open>plan_levels.get(v, 0)\<close> for a value that may not be a string.\<close>

definition plan_level_of :: "pyval \<Rightarrow> int" where
  "plan_level_of v = (case v of PStr name \<Rightarrow> dict_get plan_levels name 0 | _ \<Rightarrow> 0)"

text \<open>
  \<open>upgrade_user_plan\<close> returns the response or what it raises, together with the user
  object as the call leaves it. \<open>current_user\<close> is the object \<open>get_current_user\<close> loaded.
  The plan is read as \<open>current_user.plan\<close>, outside the \<open>try\<close> block. Inside it, the
  endpoint calls \<open>auth_service.update_user_plan(...)\<close>, which is declared \<open>async def\<close>,
  without \<open>await\<close>: the call builds a coroutine object and runs none of its body. An
  exception inside the block becomes the HTTP error 500.
\<close>

definition upgrade_user_plan :: "py_object \<Rightarrow> string \<Rightarrow> (raised + UpgradeResponse) \<times> py_object" where
  "upgrade_user_plan current_user requested =
     (if requested \<notin> set valid_plans
        then (Inl (RaisedHTTP (HTTPException 400 ''invalid plan type'')), current_user)
      else (case getattr ''User'' current_user ''plan'' of
              Inl e \<Rightarrow> (Inl (RaisedPy e), current_user)
            | Inr current_plan \<Rightarrow>
                (let current_level = plan_level_of current_plan;
                     new_level = dict_get plan_levels requested 0
                 in if new_level < current_level
                      then (Inl (RaisedHTTP (HTTPException 400 ''downgrade is not supported'')),
                            current_user)
                    else if current_plan = PStr requested
                      then (Inl (RaisedHTTP (HTTPException 400 ''user is already on this plan'')),
                            current_user)
                    else (case getattr ''User'' current_user ''id'' of
                            Inl e \<Rightarrow>
                              (Inl (RaisedHTTP (HTTPException 500 ''plan upgrade failed'')),
                               current_user)
                          | Inr uid \<Rightarrow>
                              (Inr \<lparr>message = ''plan upgraded to '' @ requested,
                                    old_plan = current_plan,
                                    new_plan = requested\<rparr>,
                               current_user)))))"

subsection \<open>Upload storage (services/file\_service.py, utils/security.py)\<close>

text \<open>\<open>str(n)\<close> for an integer.\<close>

fun str_nat :: "nat \<Rightarrow> string" where
  "str_nat n =
     (if n < 10 then [''0123456789'' ! n]
      else str_nat (n div 10) @ [''0123456789'' ! (n mod 10)])"

declare str_nat.simps [simp del]

definition str_int :: "int \<Rightarrow> string" where
  "str_int i = (if i < 0 then CHR ''-'' # str_nat (nat (- i)) else str_nat (nat i))"

text \<open>
  \<open>os.path.splitext\<close>: the extension starts at the last dot of the last component,
  unless only dots precede it there. \<open>str.rfind\<close> answers \<open>-1\<close> when there is none.
\<close>

definition index_of_last :: "string \<Rightarrow> char \<Rightarrow> int" where
  "index_of_last s c = (case rfind s c of None \<Rightarrow> - 1 | Some i \<Rightarrow> int i)"

definition splitext :: "string \<Rightarrow> string \<times> string" where
  "splitext p =
     (let sepIndex = index_of_last p CHR ''/'';
          dotIndex = index_of_last p CHR ''.''
      in if dotIndex > sepIndex \<and>
            (\<exists>c \<in> set (take (nat (dotIndex - (sepIndex + 1))) (drop (nat (sepIndex + 1)) p)).
               c \<noteq> CHR ''.'')
         then (take (nat dotIndex) p, drop (nat dotIndex) p)
         else (p, []))"

text \<open>
  \<open>sanitize_filename\<close>: angle brackets, colon, double quote, slash, backslash, bar,
  question mark and star become underscores, control characters go, and the base name is
  cut to 200 characters.
\<close>

definition sanitize_filename :: "string \<Rightarrow> string" where
  "sanitize_filename fname =
     (let replaced = map (\<lambda>c. if c \<in> set [CHR ''<'', CHR ''>'', CHR '':'', CHR 0x22, CHR ''/'',
                                           CHR 0x5C, CHR ''|'', CHR ''?'', CHR ''*'']
                               then CHR ''_'' else c) fname;
          printable = filter (\<lambda>c. (of_char c :: nat) \<ge> 32) replaced;
          (name, ext) = splitext printable
      in (if length name > 200 then take 200 name else name) @ ext)"


text \<open>
  A \<open>File\<close> row with the columns \<open>save_uploaded_file\<close> sets and the key the data base
  assigns. The store is the table, the files on disk and the directories that exist.
\<close>

record File =
  file_id :: int
  file_user_id :: int
  filename :: string
  original_filename :: string
  file_path :: string
  file_size :: nat
  file_type :: string
  mime_type :: string
  file_hash :: string
  file_status :: string
  processed_at :: "nat option"

record FileStore =
  files :: "File list"
  disk :: "string \<rightharpoonup> bytes"
  dirs :: "string set"

text \<open>
  The content hash and the MIME guess are library functions; the time stamp and the
  random part of a generated name, and whether the write to disk succeeds, vary from call
  to call.
\<close>

record Library =
  md5_hexdigest :: "bytes \<Rightarrow> string"
  guess_type :: "string \<Rightarrow> string option"

record UploadEnv =
  timestamp :: string
  unique_id :: string
  write_ok :: bool

definition generate_secure_filename :: "UploadEnv \<Rightarrow> string \<Rightarrow> int \<Rightarrow> string" where
  "generate_secure_filename env original uid =
     (let ext = snd (splitext original)
      in ''user_'' @ str_int uid @ ''_'' @ timestamp env @ ''_'' @ unique_id env @ ext)"

definition get_file_type :: "string \<Rightarrow> string" where
  "get_file_type fname =
     (let ext = lower (path_suffix fname) in
      if ext = ''.pdf'' then ''pdf''
      else if ext \<in> set [''.png'', ''.jpg'', ''.jpeg'', ''.tiff'', ''.bmp'', ''.webp''] then ''image''
      else ''unknown'')"

definition get_mime_type :: "Library \<Rightarrow> string \<Rightarrow> string" where
  "get_mime_type lib fname =
     (case guess_type lib fname of
        Some m \<Rightarrow> if m \<noteq> [] then m
                  else dict_get SUPPORTED_FILE_TYPES (lower (path_suffix fname)) ''application/octet-stream''
      | None \<Rightarrow> dict_get SUPPORTED_FILE_TYPES (lower (path_suffix fname)) ''application/octet-stream'')"

text \<open>\<open>_get_user_upload_dir\<close> creates the directory when it is missing.\<close>

definition get_user_upload_dir :: "Settings \<Rightarrow> FileStore \<Rightarrow> int \<Rightarrow> string \<times> FileStore" where
  "get_user_upload_dir cfg db uid =
     (let user_dir = upload_dir cfg @ ''/user_'' @ str_int uid
      in (user_dir, db\<lparr>dirs := insert user_dir (dirs db)\<rparr>))"

text \<open>The filter of the duplicate query: same owner and same content hash.\<close>

definition same_upload :: "int \<Rightarrow> string \<Rightarrow> File \<Rightarrow> bool" where
  "same_upload uid h f = (file_user_id f = uid \<and> file_hash f = h)"

text \<open>
  \<open>save_uploaded_file\<close>. A failed validation raises its message as \<open>ValueError\<close>. When
  the write fails, the handler rolls back, removes the file if it is there and raises.
\<close>

definition save_uploaded_file ::
  "Settings \<Rightarrow> Library \<Rightarrow> UploadEnv \<Rightarrow> FileStore \<Rightarrow> int \<Rightarrow> string \<Rightarrow> bytes \<Rightarrow>
   (py_error + File) \<times> FileStore" where
  "save_uploaded_file cfg lib env db uid original file_content =
     (case validate_file cfg original file_content of
        Invalid err c \<Rightarrow> (Inl (ValueError err), db)
      | Valid \<Rightarrow>
          (let clean_filename = sanitize_filename original;
               secure_filename = generate_secure_filename env clean_filename uid;
               (user_dir, db1) = get_user_upload_dir cfg db uid;
               path = user_dir @ ''/'' @ secure_filename;
               h = md5_hexdigest lib file_content
           in case find (same_upload uid h) (files db1) of
                Some existing_file \<Rightarrow> (Inr existing_file, db1)
              | None \<Rightarrow>
                  (if \<not> write_ok env
                   then (Inl (ValueError ''file save failed''), db1\<lparr>disk := (disk db1)(path := None)\<rparr>)
                   else (let file_record =
                               \<lparr>file_id = fresh_id (map file_id (files db1)),
                                file_user_id = uid,
                                filename = secure_filename,
                                original_filename = clean_filename,
                                file_path = path,
                                file_size = length file_content,
                                file_type = get_file_type clean_filename,
                                mime_type = get_mime_type lib clean_filename,
                                file_hash = h,
                                file_status = ''uploaded'',
           processed_at = None\<rparr>
                         in (Inr file_record,
                             db1\<lparr>disk := (disk db1)(path \<mapsto> file_content),
                                 files := files db1 @ [file_record]\<rparr>)))))"

subsection \<open>Quota rollover (tasks/stats\_tasks.py, models.py)\<close>

text \<open>
  The job takes every row of the \<open>UserQuota\<close> table and works on it through attribute
  names of its own, so here a row is the object the session loads for it.
\<close>

text \<open>
  The object the session loads for a \<open>UserQuota\<close> row: one attribute for each column of
  the class in models.py. The two time stamps are not part of the model; their attributes
  exist.
\<close>

definition user_quota_object :: "UserQuota \<Rightarrow> py_object" where
  "user_quota_object q =
     [''id'' \<mapsto> PInt (quota_id q),
      ''user_id'' \<mapsto> PInt (quota_user_id q),
      ''quota_type'' \<mapsto> PStr (quota_type q),
      ''quota_limit'' \<mapsto> PInt (quota_limit q),
      ''quota_used'' \<mapsto> PInt (quota_used q),
      ''reset_time'' \<mapsto> PDate (reset_time q),
      ''created_at'' \<mapsto> PNone,
      ''updated_at'' \<mapsto> PNone]"

text \<open>The dictionary the job returns: success with the count, or error with the exception.\<close>

datatype job_result = JobSuccess nat | JobError py_error

text \<open>
  The body of the loop for one row; the second component is what the row adds to
  \<open>updated_count\<close>. The job reads the clock several times; the model takes one date for
  the whole run.
\<close>

definition rollover_row :: "date \<Rightarrow> py_object \<Rightarrow> py_error + py_object \<times> nat" where
  "rollover_row today quota =
     (case getattr ''UserQuota'' quota ''last_reset_date'' of
        Inl e \<Rightarrow> Inl e
      | Inr last_reset \<Rightarrow>
          (let (q1, n1) =
                 (if last_reset \<noteq> PDate today
                  then (quota(''daily_pages_used'' \<mapsto> PInt 0, ''last_reset_date'' \<mapsto> PDate today),
                        1)
                  else (quota, 0));
               current_month = replace_day_1 today
           in case getattr ''UserQuota'' q1 ''monthly_reset_date'' of
                Inl e \<Rightarrow> Inl e
              | Inr monthly_reset \<Rightarrow>
                  (if monthly_reset \<noteq> PDate current_month
                   then Inr (q1(''monthly_pages_used'' \<mapsto> PInt 0,
                                ''monthly_reset_date'' \<mapsto> PDate current_month),
                             n1 + 1)
                   else Inr (q1, n1))))"

fun rollover_loop :: "date \<Rightarrow> py_object list \<Rightarrow> nat \<Rightarrow> py_error + py_object list \<times> nat" where
  "rollover_loop today [] updated_count = Inr ([], updated_count)"
| "rollover_loop today (quota # rest) updated_count =
     (case rollover_row today quota of
        Inl e \<Rightarrow> Inl e
      | Inr (quota', n) \<Rightarrow>
          (case rollover_loop today rest (updated_count + n) of
             Inl e \<Rightarrow> Inl e
           | Inr (rest', cnt) \<Rightarrow> Inr (quota' # rest', cnt)))"

text \<open>
  \<open>update_user_quotas\<close>: an exception anywhere in the loop ends in the handler, which
  rolls the session back (the rows are as before the run) and returns the error.
\<close>

definition update_user_quotas :: "date \<Rightarrow> py_object list \<Rightarrow> job_result \<times> py_object list" where
  "update_user_quotas today quotas =
     (case rollover_loop today quotas 0 of
        Inl e \<Rightarrow> (JobError e, quotas)
      | Inr (quotas', updated_count) \<Rightarrow> (JobSuccess updated_count, quotas'))"

subsection \<open>OCR worker and cancellation (tasks/ocr\_tasks.py, services/ocr\_service.py)\<close>

text \<open>
  Times are readings of one clock. Confidences are Python floats; the model computes with
  reals. An engine adapter returns the text, the confidence and the blocks of a page.
\<close>

type_synonym timestamp = nat

record OcrOutput =
  ocr_text :: string
  confidence :: real
  blocks :: "text_block list"

text \<open>
  The session: the task, result and usage tables hold the stored columns of their rows;
  the file table holds \<open>File\<close> rows; \<open>revoked\<close> lists the jobs revoked at the queue.
\<close>

record OcrStore =
  tasks :: "py_object list"
  ocr_results :: "py_object list"
  api_usage :: "py_object list"
  ocr_files :: "File list"
  revoked :: "string list"

definition OCR_ENGINE_COSTS :: "string \<rightharpoonup> real" where
  "OCR_ENGINE_COSTS =
     map_of [(''tesseract'', 0), (''paddleocr'', 0), (''easyocr'', 0),
             (''baidu_ocr'', 0.004), (''baidu_ocr_accurate'', 0.008),
             (''tencent_ocr'', 0.006), (''aliyun_ocr'', 0.01), (''azure_ocr'', 0.01)]"

text \<open>\<open>str(e)\<close> of an exception.\<close>

definition str_error :: "py_error \<Rightarrow> string" where
  "str_error e =
     (case e of
        ValueError m \<Rightarrow> m
      | AttributeError cls name \<Rightarrow> cls @ '' object has no attribute '' @ name
      | TypeError m \<Rightarrow> m
      | OtherException m \<Rightarrow> m)"

text \<open>
  What the environment decides: which engines are live, the page images of a file (their
  extraction may raise), what an engine adapter does with a page, the clock, and the job
  identifier of the running worker.
\<close>

record 'img OcrEnv =
  engines :: "string \<rightharpoonup> bool"
  load_images :: "File \<Rightarrow> py_error + 'img list"
  adapter :: "string \<Rightarrow> 'img \<Rightarrow> py_error + OcrOutput"
  now :: timestamp
  request_id :: string

definition execute_ocr :: "'img OcrEnv \<Rightarrow> string \<Rightarrow> 'img \<Rightarrow> py_error + OcrOutput" where
  "execute_ocr env engine img =
     (if engine = ''tesseract'' \<or> engine = ''paddleocr'' \<or> engine = ''easyocr'' \<or> engine = ''baidu''
      then adapter env engine img
      else Inl (ValueError (''unsupported OCR engine: '' @ engine)))"

text \<open>The query \<open>OCRTask.id == task_id\<close>, and a commit of the task object of the session.\<close>

definition find_task :: "OcrStore \<Rightarrow> int \<Rightarrow> py_object option" where
  "find_task db tid = find (\<lambda>t. t ''id'' = Some (PInt tid)) (tasks db)"

definition commit_task :: "py_object \<Rightarrow> OcrStore \<Rightarrow> OcrStore" where
  "commit_task task db =
     db\<lparr>tasks := update_first (\<lambda>t. t ''id'' = task ''id'')
                     (\<lambda>t. stored OCRTask_attrs task) (tasks db)\<rparr>"

text \<open>
  \<open>_record_api_usage\<close> builds an \<open>APIUsage\<close> from four keywords inside its own \<open>try\<close>;
  its handler logs an exception and returns.
\<close>

definition record_api_usage :: "OcrStore \<Rightarrow> pyval \<Rightarrow> string \<Rightarrow> nat \<Rightarrow> OcrStore" where
  "record_api_usage db uid engine pages =
     (let cost_per_page = dict_get OCR_ENGINE_COSTS engine 0;
          total_cost = cost_per_page * real pages
      in case construct ''APIUsage'' APIUsage_attrs
                [(''user_id'', uid), (''engine'', PStr engine),
                 (''pages_processed'', PInt (int pages)), (''cost'', PReal total_cost)] of
           Inl e \<Rightarrow> db
         | Inr usage \<Rightarrow> db\<lparr>api_usage := api_usage db @ [stored APIUsage_attrs usage]\<rparr>)"

text \<open>
  The keywords of the two \<open>OCRResult(...)\<close> calls of the page loop: the one for a page
  that was read, and the one of the handler for a page that failed.
\<close>

definition result_kwargs :: "pyval \<Rightarrow> nat \<Rightarrow> string \<Rightarrow> OcrOutput \<Rightarrow> (string \<times> pyval) list" where
  "result_kwargs tid i engine result =
     [(''task_id'', tid),
      (''page_number'', PInt (int i + 1)),
      (''text_content'', PStr (ocr_text result)),
      (''confidence_score'', PReal (confidence result)),
      (''bounding_boxes'', PBlocks (blocks result)),
      (''engine_used'', PStr engine)]"

definition failure_kwargs :: "pyval \<Rightarrow> nat \<Rightarrow> string \<Rightarrow> py_error \<Rightarrow> (string \<times> pyval) list" where
  "failure_kwargs tid i engine e =
     [(''task_id'', tid),
      (''page_number'', PInt (int i + 1)),
      (''text_content'', PStr []),
      (''confidence_score'', PReal 0),
      (''bounding_boxes'', PBlocks []),
      (''engine_used'', PStr engine),
      (''error_message'', PStr (str_error e))]"

text \<open>
  The state of the page loop: rows added to the session, \<open>all_results\<close>,
  \<open>successful_pages\<close>, and the task object, which receives \<open>processed_pages\<close>.
\<close>

record PageLoop =
  rows :: "py_object list"
  all_results :: "OcrOutput list"
  successful_pages :: nat
  loop_task :: py_object

text \<open>
  The body of the \<open>try\<close> of one page: the engine call, then the row. Both can raise.
\<close>

definition read_page ::
  "'img OcrEnv \<Rightarrow> string \<Rightarrow> pyval \<Rightarrow> nat \<Rightarrow> 'img \<Rightarrow> py_error + py_object \<times> OcrOutput" where
  "read_page env engine tid i img =
     (case execute_ocr env engine img of
        Inl e \<Rightarrow> Inl e
      | Inr result \<Rightarrow>
          (case construct ''OCRResult'' OCRResult_attrs (result_kwargs tid i engine result) of
             Inl e \<Rightarrow> Inl e
           | Inr ocr_result \<Rightarrow> Inr (ocr_result, result)))"

text \<open>
  The page loop of \<open>_process_file_ocr\<close>. An exception of the \<open>try\<close> goes to the handler,
  which builds the failure row; an exception of the handler itself leaves the loop, and
  is the first component of the result.
\<close>

fun worker_pages ::
  "'img OcrEnv \<Rightarrow> string \<Rightarrow> pyval \<Rightarrow> nat \<Rightarrow> 'img list \<Rightarrow> PageLoop \<Rightarrow> py_error option \<times> PageLoop" where
  "worker_pages env engine tid i [] st = (None, st)"
| "worker_pages env engine tid i (img # rest) st =
     (case read_page env engine tid i img of
        Inr (ocr_result, result) \<Rightarrow>
          worker_pages env engine tid (i + 1) rest
            (st\<lparr>rows := rows st @ [stored OCRResult_attrs ocr_result],
                all_results := all_results st @ [result],
                successful_pages := successful_pages st + 1,
                loop_task := (loop_task st)(''processed_pages'' \<mapsto> PInt (int (successful_pages st) + 1))\<rparr>)
      | Inl e \<Rightarrow>
          (case construct ''OCRResult'' OCRResult_attrs (failure_kwargs tid i engine e) of
             Inl handler_error \<Rightarrow> (Some handler_error, st)
           | Inr ocr_result \<Rightarrow>
               worker_pages env engine tid (i + 1) rest
                 (st\<lparr>rows := rows st @ [stored OCRResult_attrs ocr_result]\<rparr>)))"

definition avg_confidence :: "OcrOutput list \<Rightarrow> real" where
  "avg_confidence rs = sum_list (map confidence rs) / real (length rs)"

record Summary =
  success :: bool
  summary_pages_processed :: nat
  summary_total_pages :: nat
  summary_avg_confidence :: real

text \<open>
  \<open>_process_file_ocr\<close>: an exception leaves the function with what was committed before
  it; the third component is the task object of the session. After the loop the function
  completes the task, then reads \<open>task.user_id\<close> for the usage record.
\<close>

definition process_file_ocr ::
  "'img OcrEnv \<Rightarrow> OcrStore \<Rightarrow> py_object \<Rightarrow> File \<Rightarrow> string option \<Rightarrow>
   (py_error + Summary) \<times> OcrStore \<times> py_object" where
  "process_file_ocr env db task file_record engine_preference =
     (case load_images env file_record of
        Inl e \<Rightarrow> (Inl e, db, task)
      | Inr images \<Rightarrow>
          (let task1 = task(''total_pages'' \<mapsto> PInt (int (length images)));
               db1 = commit_task task1 db
           in case select_engine (engines env) engine_preference of
                Inl e \<Rightarrow> (Inl e, db1, task1)
              | Inr engine \<Rightarrow>
                  (let task2 = task1(''engine_used'' \<mapsto> PStr engine);
                       db2 = commit_task task2 db1
                   in case getattr ''OCRTask'' task2 ''id'' of
                        Inl e \<Rightarrow> (Inl e, db2, task2)
                      | Inr tid \<Rightarrow>
                          (case worker_pages env engine tid 0 images
                                  \<lparr>rows = [], all_results = [], successful_pages = 0,
                                   loop_task = task2\<rparr> of
                             (Some e, st) \<Rightarrow>
                               (Inl e,
                                commit_task (loop_task st)
                                  (db2\<lparr>ocr_results := ocr_results db2 @ rows st\<rparr>),
                                loop_task st)
                           | (None, st) \<Rightarrow>
                               (let score = (if all_results st \<noteq> []
                                             then avg_confidence (all_results st) else 0);
                                    task3 = (loop_task st)
                                              (''status'' \<mapsto> PStr ''completed'',
                                               ''completed_at'' \<mapsto> PTime (now env),
                                               ''confidence_score'' \<mapsto> PReal score);
                                    db3 = commit_task task3
                                            (db2\<lparr>ocr_results := ocr_results db2 @ rows st\<rparr>)
                                in case getattr ''OCRTask'' task3 ''user_id'' of
                                     Inl e \<Rightarrow> (Inl e, db3, task3)
                                   | Inr uid \<Rightarrow>
                                       (let db4 = record_api_usage db3 uid engine (length images);
                                            db5 = db4\<lparr>ocr_files :=
                                                     update_first (\<lambda>f. file_id f = file_id file_record)
                                                       (\<lambda>f. f\<lparr>file_status := ''completed'',
                                                               processed_at := Some (now env)\<rparr>)
                                                       (ocr_files db4)\<rparr>
                                        in (Inr \<lparr>success = True,
                                                 summary_pages_processed = successful_pages st,
                                                 summary_total_pages = length images,
                                                 summary_avg_confidence = score\<rparr>,
                                            db5, task3)))))))"

text \<open>
  \<open>process_ocr_task\<close>: the returned dictionary, or the retry it raises with its
  countdown in seconds. \<open>retries\<close> is \<open>self.request.retries\<close>.
\<close>

datatype worker_outcome =
    WorkerError string
  | WorkerCompleted int pyval
  | WorkerRetry nat
  | WorkerFailed int string

definition max_retries :: nat where
  "max_retries = 3"

text \<open>
  The handler of \<open>process_ocr_task\<close>: the task of the session is marked failed with the
  message, committed, and the job is retried while retries are left.
\<close>

definition fail_task ::
  "'img OcrEnv \<Rightarrow> nat \<Rightarrow> int \<Rightarrow> py_error \<Rightarrow> OcrStore \<Rightarrow> py_object \<Rightarrow> worker_outcome \<times> OcrStore" where
  "fail_task env retries tid e db task =
     (let failed = task(''status'' \<mapsto> PStr ''failed'',
                        ''error_message'' \<mapsto> PStr (str_error e),
                        ''completed_at'' \<mapsto> PTime (now env));
          db' = commit_task failed db
      in if retries < max_retries then (WorkerRetry (60 * 2 ^ retries), db')
         else (WorkerFailed tid (str_error e), db'))"

text \<open>The attributes read one after the other; the first that is missing raises.\<close>

fun getattrs :: "string \<Rightarrow> py_object \<Rightarrow> string list \<Rightarrow> py_error + pyval list" where
  "getattrs cls obj [] = Inr []"
| "getattrs cls obj (name # names) =
     (case getattr cls obj name of
        Inl e \<Rightarrow> Inl e
      | Inr v \<Rightarrow> (case getattrs cls obj names of Inl e \<Rightarrow> Inl e | Inr vs \<Rightarrow> Inr (v # vs)))"

text \<open>
  \<open>process_ocr_task\<close>. After \<open>_process_file_ocr\<close> returns, the logging calls and the
  returned dictionary read \<open>engine_used\<close>, \<open>total_pages\<close>, \<open>user_id\<close>, \<open>file_id\<close> and
  \<open>processed_pages\<close> of the task, inside the \<open>try\<close>.
\<close>

definition process_ocr_task ::
  "'img OcrEnv \<Rightarrow> nat \<Rightarrow> OcrStore \<Rightarrow> int \<Rightarrow> string option \<Rightarrow> worker_outcome \<times> OcrStore" where
  "process_ocr_task env retries db tid engine_preference =
     (case find_task db tid of
        None \<Rightarrow> (WorkerError ''task does not exist'', db)
      | Some task \<Rightarrow>
          (case getattr ''OCRTask'' task ''status'' of
             Inl e \<Rightarrow> fail_task env retries tid e db task
           | Inr st \<Rightarrow>
               (if st \<noteq> PStr ''pending'' then (WorkerError ''task status is not valid'', db)
                else (let task1 = task(''status'' \<mapsto> PStr ''processing'',
                                       ''started_at'' \<mapsto> PTime (now env),
                                       ''celery_task_id'' \<mapsto> PStr (request_id env));
                          db1 = commit_task task1 db
                      in case getattr ''OCRTask'' task1 ''file_id'' of
                           Inl e \<Rightarrow> fail_task env retries tid e db1 task1
                         | Inr fid \<Rightarrow>
                             (case find (\<lambda>f. PInt (file_id f) = fid) (ocr_files db1) of
                                None \<Rightarrow>
                                  fail_task env retries tid
                                    (ValueError ''the associated file does not exist'') db1 task1
                              | Some file_record \<Rightarrow>
                                  (case process_file_ocr env db1 task1 file_record engine_preference of
                                     (Inl e, db2, task2) \<Rightarrow> fail_task env retries tid e db2 task2
                                   | (Inr summary, db2, task2) \<Rightarrow>
                                       (case getattrs ''OCRTask'' task2
                                               [''engine_used'', ''total_pages'', ''user_id'',
                                                ''file_id'', ''processed_pages''] of
                                          Inl e \<Rightarrow> fail_task env retries tid e db2 task2
                                        | Inr vs \<Rightarrow> (WorkerCompleted tid (last vs), db2))))))))"

text \<open>
  \<open>cancel_ocr_task\<close> returns an error dictionary or the cancelled task's key; an
  exception leaves the session block, which rolls back and raises it again.
  \<open>if task.celery_task_id\<close> reads the attribute and tests it: \<open>None\<close> and the empty
  string are false.
\<close>

datatype cancel_outcome = CancelError string | Cancelled int

definition cancel_ocr_task ::
  "timestamp \<Rightarrow> OcrStore \<Rightarrow> int \<Rightarrow> (py_error + cancel_outcome) \<times> OcrStore" where
  "cancel_ocr_task clock db tid =
     (case find_task db tid of
        None \<Rightarrow> (Inr (CancelError ''task does not exist''), db)
      | Some task \<Rightarrow>
          (case getattr ''OCRTask'' task ''status'' of
             Inl e \<Rightarrow> (Inl e, db)
           | Inr st \<Rightarrow>
               (if st \<in> set [PStr ''completed'', PStr ''failed'', PStr ''cancelled'']
                then (Inr (CancelError ''task already finished or cancelled''), db)
                else (case getattr ''OCRTask'' task ''celery_task_id'' of
                        Inl e \<Rightarrow> (Inl e, db)
                      | Inr job \<Rightarrow>
                          (let db1 = (case job of
                                        PStr j \<Rightarrow> if j \<noteq> [] then db\<lparr>revoked := revoked db @ [j]\<rparr> else db
                                      | _ \<Rightarrow> db);
                               task1 = task(''status'' \<mapsto> PStr ''cancelled'',
                                            ''completed_at'' \<mapsto> PTime clock)
                           in (Inr (Cancelled tid), commit_task task1 db1))))))"

text \<open>
  A two-page document with a pending task, \<open>paddleocr\<close> live and preferred; the engine
  reads page 1 and raises on page 2.
\<close>

definition sample_file :: File where
  "sample_file =
     \<lparr>file_id = 3, file_user_id = 1, filename = ''user_1_20240101_120000_1a2b3c4d.pdf'',
      original_filename = ''scan.pdf'',
      file_path = ''uploads/user_1/user_1_20240101_120000_1a2b3c4d.pdf'',
      file_size = 2048, file_type = ''pdf'', mime_type = ''application/pdf'',
      file_hash = ''9e107d9d'', file_status = ''uploaded'', processed_at = None\<rparr>"

definition sample_env :: "nat OcrEnv" where
  "sample_env =
     \<lparr>engines = [''paddleocr'' \<mapsto> True],
      load_images = (\<lambda>f. Inr [1, 2]),
      adapter = (\<lambda>engine img. if img = 1
                   then Inr \<lparr>ocr_text = ''page one'', confidence = 0.9, blocks = []\<rparr>
                   else Inl (OtherException ''engine timed out'')),
      now = 50,
      request_id = ''job-7''\<rparr>"

definition sample_store :: OcrStore where
  "sample_store =
     \<lparr>tasks = [ocr_task_row 7 3 ''paddleocr'' ''pending''], ocr_results = [], api_usage = [],
      ocr_files = [sample_file], revoked = []\<rparr>"

section \<open>Theorems\<close>

subsection \<open>Engine selection\<close>

lemma first_live_keys_none:
  "\<forall>k \<in> set ks. \<not> is_live registry k \<Longrightarrow> first_live registry ks = None"
  by (induction ks) auto

text \<open>
  Whatever the registry, as long as none of its keys is one of the tier names
  \<open>free\<close>, \<open>premium\<close>, \<open>auto\<close>, a preference that is not live ends in the error: the
  fallback loop compares tier names, not engine names, with the registry.
\<close>

lemma priority_walk_fails:
  assumes "\<not> is_live registry ''free''" "\<not> is_live registry ''premium''"
      and "\<not> is_live registry ''auto''"
  shows "priority_walk registry = Inl (ValueError ''no OCR engine available'')"
  using assms by (simp add: priority_walk_def dict_iter_def OCR_ENGINE_PRIORITY_def)

lemma select_engine_fallback_fails:
  assumes "\<not> is_live registry ''free''" "\<not> is_live registry ''premium''"
      and "\<not> is_live registry ''auto''"
      and "\<forall>p. preference = Some p \<longrightarrow> p = [] \<or> \<not> is_live registry p"
  shows "select_engine registry preference = Inl (ValueError ''no OCR engine available'')"
  using assms(4) priority_walk_fails [OF assms(1-3)]
  by (auto simp: select_engine_def split: option.splits)

text \<open>
  So it is for every registry \<open>_init_engines\<close> can build: whichever engines are live, a
  call without a live preference raises.
\<close>

lemma select_engine_registry_fails:
  assumes "dom registry \<subseteq> registry_names"
      and "\<forall>p. preference = Some p \<longrightarrow> p = [] \<or> \<not> is_live registry p"
  shows "select_engine registry preference = Inl (ValueError ''no OCR engine available'')"
proof -
  have "''free'' \<notin> registry_names" "''premium'' \<notin> registry_names" "''auto'' \<notin> registry_names"
    by (simp_all add: registry_names_def)
  with assms(1) have "\<not> is_live registry ''free''" "\<not> is_live registry ''premium''"
      "\<not> is_live registry ''auto''"
    by (auto simp: is_live_def)
  then show ?thesis
    using assms(2) by (rule select_engine_fallback_fails)
qed

text \<open>A live preference is returned.\<close>

lemma select_engine_preference:
  "p \<noteq> [] \<Longrightarrow> is_live registry p \<Longrightarrow> select_engine registry (Some p) = Inr p"
  by (simp add: select_engine_def)

text \<open>
  C1. With only tesseract live and no preference, the priority walk is claimed to return
  tesseract; the code raises "no OCR engine available".
\<close>

theorem select_engine_tesseract_only:
  "select_engine [''tesseract'' \<mapsto> True] None = Inl (ValueError ''no OCR engine available'')"
  by (simp add: select_engine_def priority_walk_def dict_iter_def OCR_ENGINE_PRIORITY_def
      is_live_def)

subsection \<open>Plan gate\<close>

lemma plan_level_known:
  "dict_get plan_hierarchy ''free'' 0 = 0"
  "dict_get plan_hierarchy ''premium'' 0 = 1"
  "dict_get plan_hierarchy ''enterprise'' 0 = 2"
  by (simp_all add: dict_get_def plan_hierarchy_def)

lemma plan_level_other:
  "p \<noteq> ''free'' \<Longrightarrow> p \<noteq> ''premium'' \<Longrightarrow> p \<noteq> ''enterprise'' \<Longrightarrow>
   dict_get plan_hierarchy p 0 = 0"
  by (simp add: dict_get_def plan_hierarchy_def)

lemma plan_level_range: "dict_get plan_hierarchy p 0 \<in> {0, 1, 2}"
  by (simp add: dict_get_def plan_hierarchy_def)

text \<open>
  C9. The gate knows three levels, free 0, premium 1, enterprise 2, and gives every other
  plan name level 0, \<open>basic\<close> included. So a user on \<open>basic\<close> passes a gate exactly when the
  required plan has level 0 (of the three known plans: only \<open>free\<close>), and a gate whose
  required plan is an unknown name admits every user.
\<close>

theorem check_user_permissions_levels:
  "dict_get plan_hierarchy ''free'' 0 = 0 \<and>
   dict_get plan_hierarchy ''premium'' 0 = 1 \<and>
   dict_get plan_hierarchy ''enterprise'' 0 = 2 \<and>
   dict_get plan_hierarchy ''basic'' 0 = 0 \<and>
   (\<forall>p. p \<notin> {''free'', ''premium'', ''enterprise''} \<longrightarrow> dict_get plan_hierarchy p 0 = 0) \<and>
   (\<forall>u r. plan_type u = ''basic'' \<longrightarrow>
      check_user_permissions u r = (dict_get plan_hierarchy r 0 = 0)) \<and>
   (\<forall>u. plan_type u = ''basic'' \<longrightarrow>
      check_user_permissions u ''free'' \<and>
      \<not> check_user_permissions u ''premium'' \<and>
      \<not> check_user_permissions u ''enterprise'') \<and>
   (\<forall>u r. r \<notin> {''free'', ''premium'', ''enterprise''} \<longrightarrow> check_user_permissions u r)"
proof -
  have ge0: "\<And>p. 0 \<le> dict_get plan_hierarchy p 0"
    using plan_level_range by (metis insertE singletonD order_refl zero_le_numeral zero_le_one)
  have basic: "dict_get plan_hierarchy ''basic'' 0 = 0"
    by (simp add: plan_level_other)
  have other: "\<forall>p. p \<notin> {''free'', ''premium'', ''enterprise''} \<longrightarrow> dict_get plan_hierarchy p 0 = 0"
    by (simp add: plan_level_other)
  have gate: "\<forall>u r. plan_type u = ''basic'' \<longrightarrow>
      check_user_permissions u r = (dict_get plan_hierarchy r 0 = 0)"
  proof (intro allI impI)
    fix u :: User and r :: string
    assume "plan_type u = ''basic''"
    then have "check_user_permissions u r = (dict_get plan_hierarchy r 0 \<le> 0)"
      by (simp add: check_user_permissions_def basic)
    also have "\<dots> = (dict_get plan_hierarchy r 0 = 0)"
      using ge0 [of r] by auto
    finally show "check_user_permissions u r = (dict_get plan_hierarchy r 0 = 0)" .
  qed
  have three: "\<forall>u. plan_type u = ''basic'' \<longrightarrow>
      check_user_permissions u ''free'' \<and>
      \<not> check_user_permissions u ''premium'' \<and>
      \<not> check_user_permissions u ''enterprise''"
    using gate by (simp add: plan_level_known)
  have unknown: "\<forall>u r. r \<notin> {''free'', ''premium'', ''enterprise''} \<longrightarrow> check_user_permissions u r"
    using other ge0 by (simp add: check_user_permissions_def)
  show ?thesis
    using plan_level_known basic other gate three unknown by blast
qed

theorem check_user_permissions_levels_witness:
  "check_user_permissions
     \<lparr>user_id = 7, username = ''lin'', email = ''lin@example.org'', hashed_password = ''h'',
      plan_type = ''basic'', api_quota = 1000, is_active = True, is_admin = False\<rparr> ''free'' \<and>
   \<not> check_user_permissions
     \<lparr>user_id = 7, username = ''lin'', email = ''lin@example.org'', hashed_password = ''h'',
      plan_type = ''basic'', api_quota = 1000, is_active = True, is_admin = False\<rparr> ''premium'' \<and>
   check_user_permissions
     \<lparr>user_id = 8, username = ''ada'', email = ''ada@example.org'', hashed_password = ''h'',
      plan_type = ''free'', api_quota = 100, is_active = True, is_admin = False\<rparr> ''gold'' \<and>
   dict_get plan_hierarchy ''gold'' 0 = 0"
  using check_user_permissions_levels by simp

subsection \<open>Token verification\<close>

text \<open>
  C10. Whatever the decoder does with the token, \<open>verify_token\<close> returns; it returns no
  payload when the decoder raises (expired, badly signed, malformed, or any other
  exception), and also when the decoder accepts the token but the claims hold no \<open>sub\<close>.
\<close>

theorem verify_token_total:
  "(\<exists>r. verify_token jwt_decode token = Inr r) \<and>
   (\<forall>e. jwt_decode token = RaisesJWTError e \<longrightarrow> verify_token jwt_decode token = Inr None) \<and>
   (\<forall>e. jwt_decode token = RaisesException e \<longrightarrow> verify_token jwt_decode token = Inr None) \<and>
   (\<forall>payload. jwt_decode token = Decoded payload \<and> map_of payload ''sub'' = None \<longrightarrow>
      verify_token jwt_decode token = Inr None)"
  by (auto simp: verify_token_def claims_get_def split: decode_outcome.splits option.splits json.splits)

theorem verify_token_total_witness:
  "verify_token (\<lambda>t. if t = ''good'' then Decoded [(''exp'', JNum 1800)] else RaisesJWTError ''bad'')
     ''good'' = Inr None \<and>
   verify_token (\<lambda>t. if t = ''good'' then Decoded [(''exp'', JNum 1800)] else RaisesJWTError ''bad'')
     ''expired'' = Inr None"
  using verify_token_total
    [of "\<lambda>t. if t = ''good'' then Decoded [(''exp'', JNum 1800)] else RaisesJWTError ''bad''" "''good''"]
    verify_token_total
    [of "\<lambda>t. if t = ''good'' then Decoded [(''exp'', JNum 1800)] else RaisesJWTError ''bad''" "''expired''"]
  by simp

subsection \<open>File validation\<close>

lemma validate_file_content_pdf:
  "take 4 file_content = ''%PDF'' \<Longrightarrow> validate_file_content file_content ''.pdf''"
proof -
  assume h: "take 4 file_content = ''%PDF''"
  then have "length (take 4 file_content) = 4" by simp
  then have len: "\<not> length file_content < 4" by auto
  have magic: "dict_get magic_numbers ''.pdf'' [] = [''%PDF'']"
    by (simp add: dict_get_def magic_numbers_def)
  have "length ''%PDF'' = 4" by simp
  with h have "startswith file_content ''%PDF''"
    unfolding startswith_def by (simp only:)
  with len magic show ?thesis
    by (simp add: validate_file_content_def)
qed

lemma validate_file_content_png:
  "take 4 file_content = ''%PDF'' \<Longrightarrow> \<not> validate_file_content file_content ''.png''"
proof -
  assume h: "take 4 file_content = ''%PDF''"
  have magic: "dict_get magic_numbers ''.png'' [] = [[CHR 0x89, CHR ''P'', CHR ''N'', CHR ''G'']]"
    by (simp add: dict_get_def magic_numbers_def)
  have "length [CHR 0x89, CHR ''P'', CHR ''N'', CHR ''G''] = 4" by simp
  then have "startswith file_content [CHR 0x89, CHR ''P'', CHR ''N'', CHR ''G''] =
      (take 4 file_content = [CHR 0x89, CHR ''P'', CHR ''N'', CHR ''G''])"
    unfolding startswith_def by (simp only:)
  with h have "\<not> startswith file_content [CHR 0x89, CHR ''P'', CHR ''N'', CHR ''G'']"
    by simp
  with magic show ?thesis
    by (simp add: validate_file_content_def)
qed

lemma validate_file_content_short:
  "length file_content < 4 \<Longrightarrow> \<not> validate_file_content file_content ext"
  by (simp add: validate_file_content_def)

lemma validate_file_content_unknown:
  "magic_numbers ext = None \<Longrightarrow> 4 \<le> length file_content \<Longrightarrow>
   validate_file_content file_content ext"
  by (simp add: validate_file_content_def dict_get_def)

text \<open>
  C5, as stated, at a file one byte over the limit: the bytes start with \<open>%PDF\<close>, yet
  under \<open>.pdf\<close> validation fails, and under \<open>.png\<close> the code is \<open>FILE_TOO_LARGE\<close>, not
  \<open>INVALID_FILE_CONTENT\<close>.
\<close>

theorem validate_file_oversize_counterexample:
  "take 4 (''%PDF'' @ replicate (50 * 1024 * 1024 - 3) (CHR ''x'')) = ''%PDF'' \<and>
   validate_file settings ''scan.pdf'' (''%PDF'' @ replicate (50 * 1024 * 1024 - 3) (CHR ''x''))
     = Invalid ''file size exceeds the limit'' ''FILE_TOO_LARGE'' \<and>
   validate_file settings ''scan.png'' (''%PDF'' @ replicate (50 * 1024 * 1024 - 3) (CHR ''x''))
     = Invalid ''file size exceeds the limit'' ''FILE_TOO_LARGE''"
proof -
  have pdf: "lower (path_suffix ''scan.pdf'') = ''.pdf''"
    by (simp add: lower_def lower_char_def path_suffix_def path_name_def rfind_def)
  have png: "lower (path_suffix ''scan.png'') = ''.png''"
    by (simp add: lower_def lower_char_def path_suffix_def path_name_def rfind_def)
  show ?thesis
    by (simp add: validate_file_def pdf png settings_def)
qed

text \<open>
  C5, amended: for content no longer than the configured size limit. Bytes that start with
  \<open>%PDF\<close> validate under \<open>.pdf\<close> and fail with \<open>INVALID_FILE_CONTENT\<close> under \<open>.png\<close> (both
  extensions being allowed); content shorter than 4 bytes is invalid under every file
  name; content of at least 4 bytes under an allowed extension that has no entry in the
  magic-number table is valid.
\<close>

theorem validate_file_magic:
  "(lower (path_suffix fname) = ''.pdf'' \<and> ''.pdf'' \<in> set (allowed_extensions cfg) \<and>
    length file_content \<le> max_file_size cfg \<and> take 4 file_content = ''%PDF''
      \<longrightarrow> validate_file cfg fname file_content = Valid) \<and>
   (lower (path_suffix fname) = ''.png'' \<and> ''.png'' \<in> set (allowed_extensions cfg) \<and>
    length file_content \<le> max_file_size cfg \<and> take 4 file_content = ''%PDF''
      \<longrightarrow> validate_file cfg fname file_content =
            Invalid ''file content does not match the extension'' ''INVALID_FILE_CONTENT'') \<and>
   (length file_content < 4 \<longrightarrow> validate_file cfg fname file_content \<noteq> Valid) \<and>
   (lower (path_suffix fname) \<in> set (allowed_extensions cfg) \<and>
    magic_numbers (lower (path_suffix fname)) = None \<and>
    4 \<le> length file_content \<and> length file_content \<le> max_file_size cfg
      \<longrightarrow> validate_file cfg fname file_content = Valid)"
proof (intro conjI impI)
  assume "lower (path_suffix fname) = ''.pdf'' \<and> ''.pdf'' \<in> set (allowed_extensions cfg) \<and>
    length file_content \<le> max_file_size cfg \<and> take 4 file_content = ''%PDF''"
  then show "validate_file cfg fname file_content = Valid"
    using validate_file_content_pdf [of file_content] by (simp add: validate_file_def)
next
  assume "lower (path_suffix fname) = ''.png'' \<and> ''.png'' \<in> set (allowed_extensions cfg) \<and>
    length file_content \<le> max_file_size cfg \<and> take 4 file_content = ''%PDF''"
  then show "validate_file cfg fname file_content =
      Invalid ''file content does not match the extension'' ''INVALID_FILE_CONTENT''"
    using validate_file_content_png [of file_content] by (simp add: validate_file_def)
next
  assume "length file_content < 4"
  then show "validate_file cfg fname file_content \<noteq> Valid"
    using validate_file_content_short [of file_content "lower (path_suffix fname)"]
    by (simp add: validate_file_def Let_def)
next
  assume "lower (path_suffix fname) \<in> set (allowed_extensions cfg) \<and>
    magic_numbers (lower (path_suffix fname)) = None \<and>
    4 \<le> length file_content \<and> length file_content \<le> max_file_size cfg"
  then show "validate_file cfg fname file_content = Valid"
    using validate_file_content_unknown [of "lower (path_suffix fname)" file_content]
    by (simp add: validate_file_def Let_def)
qed

lemma suffix_report_pdf: "lower (path_suffix ''Report.PDF'') = ''.pdf''"
  by (simp add: lower_def lower_char_def path_suffix_def path_name_def rfind_def)

lemma suffix_report_png: "lower (path_suffix ''report.png'') = ''.png''"
  by (simp add: lower_def lower_char_def path_suffix_def path_name_def rfind_def)

lemma suffix_anim_gif: "lower (path_suffix ''anim.gif'') = ''.gif''"
  by (simp add: lower_def lower_char_def path_suffix_def path_name_def rfind_def)

theorem validate_file_magic_witness:
  "validate_file settings ''Report.PDF'' ''%PDF-1.7'' = Valid \<and>
   validate_file settings ''report.png'' ''%PDF-1.7'' =
     Invalid ''file content does not match the extension'' ''INVALID_FILE_CONTENT'' \<and>
   validate_file settings ''Report.PDF'' ''%PD'' \<noteq> Valid \<and>
   validate_file (settings\<lparr>allowed_extensions := [''.pdf'', ''.gif'']\<rparr>) ''anim.gif'' ''GIF89a'' = Valid"
proof -
  have gif: "magic_numbers ''.gif'' = None"
    by (simp add: magic_numbers_def)
  show ?thesis
    using validate_file_magic [of "''Report.PDF''" settings "''%PDF-1.7''"]
      validate_file_magic [of "''report.png''" settings "''%PDF-1.7''"]
      validate_file_magic [of "''Report.PDF''" settings "''%PD''"]
      validate_file_magic [of "''anim.gif''" "settings\<lparr>allowed_extensions := [''.pdf'', ''.gif'']\<rparr>" "''GIF89a''"]
      gif
    by (simp add: suffix_report_pdf suffix_report_png suffix_anim_gif settings_def)
qed

subsection \<open>Administrator bootstrap\<close>

lemma default_password_rejected: "\<not> validate_password_strength ''123456''"
  by (simp add: validate_password_strength_def)

lemma admin_username_ok: "validate_username ''admin''"
  by (simp add: validate_username_def strip_final_newline_def isalpha_def isupper_def
      islower_def isdigit_def)

lemma admin_email_ok: "validate_email ''admin@ocr-system.com''"
  by (simp add: validate_email_def strip_final_newline_def isalpha_def isupper_def
      islower_def isdigit_def)

text \<open>
  Whatever the store, as long as it has no user named \<open>admin\<close>, the run fails on the
  password policy and leaves the store as it was.
\<close>

lemma init_admin_user_no_admin:
  assumes "find (\<lambda>u. username u = ''admin'') (users db) = None"
  shows "init_admin_user cfg pwd_hash today db =
           (Inl (ValueError ''password is not strong enough''), db)"
  using assms
  by (simp add: init_admin_user_def register_user_def admin_username_ok admin_email_ok
      default_password_rejected)

text \<open>The second half of the claim: an existing non-admin \<open>admin\<close> is promoted in place.\<close>

lemma init_admin_user_promotes:
  assumes "find (\<lambda>u. username u = ''admin'') (users db) = Some u" "\<not> is_admin u"
  shows "init_admin_user cfg pwd_hash today db =
           (Inr (u\<lparr>is_admin := True\<rparr>),
            db\<lparr>users := update_first (\<lambda>u. username u = ''admin'')
                            (\<lambda>u. u\<lparr>is_admin := True\<rparr>) (users db)\<rparr>)"
  using assms by (simp add: init_admin_user_def)

text \<open>
  C3. On a store with no users the bootstrap is claimed to create the user \<open>admin\<close> with
  password \<open>123456\<close>; the code raises the password-strength error of \<open>register_user\<close>
  and the store still has no user.
\<close>

theorem init_admin_user_empty_store:
  "init_admin_user settings pwd_hash today \<lparr>users = [], user_quotas = []\<rparr> =
     (Inl (ValueError ''password is not strong enough''), \<lparr>users = [], user_quotas = []\<rparr>)"
  by (simp add: init_admin_user_no_admin)

subsection \<open>Plan upgrade\<close>

lemma plan_levels_values:
  "dict_get plan_levels ''free'' 0 = 0"
  "dict_get plan_levels ''basic'' 0 = 1"
  "dict_get plan_levels ''premium'' 0 = 2"
  "dict_get plan_levels ''enterprise'' 0 = 3"
  by (simp_all add: dict_get_def plan_levels_def)

text \<open>The object of a \<open>User\<close> row has the attributes of the class, and no \<open>plan\<close>.\<close>

lemma user_object_attrs: "dom (user_object u) = set User_attrs"
  by (auto simp: user_object_def User_attrs_def)

lemma user_object_no_plan: "user_object u ''plan'' = None"
  by (simp add: user_object_def)

text \<open>
  For every \<open>User\<close> row and every request that names one of the four plans, the endpoint
  raises at its first read of the plan, before it compares levels.
\<close>

lemma upgrade_user_plan_row_raises:
  "requested \<in> set valid_plans \<Longrightarrow>
   upgrade_user_plan (user_object u) requested =
     (Inl (RaisedPy (AttributeError ''User'' ''plan'')), user_object u)"
  by (simp add: upgrade_user_plan_def getattr_def user_object_no_plan)

text \<open>
  What the checks do on an object that does carry a \<open>plan\<close>: a lower level and the same
  plan are both rejected with status 400, and the object is left as it is.
\<close>

lemma upgrade_user_plan_checks:
  assumes "requested \<in> set valid_plans" "current_user ''plan'' = Some (PStr current)"
  shows "dict_get plan_levels requested 0 < dict_get plan_levels current 0 \<Longrightarrow>
           upgrade_user_plan current_user requested =
             (Inl (RaisedHTTP (HTTPException 400 ''downgrade is not supported'')), current_user)"
    and "current = requested \<Longrightarrow>
           upgrade_user_plan current_user requested =
             (Inl (RaisedHTTP (HTTPException 400 ''user is already on this plan'')), current_user)"
  using assms by (simp_all add: upgrade_user_plan_def getattr_def plan_level_of_def Let_def)

lemma upgrade_user_plan_keeps_user: "snd (upgrade_user_plan current_user requested) = current_user"
  by (simp add: upgrade_user_plan_def Let_def split: sum.splits)

text \<open>
  C4. A user on the premium plan asks for basic, a lower level: the request is claimed to
  be rejected as a downgrade; the endpoint raises \<open>AttributeError\<close> on \<open>current_user.plan\<close>
  and never reaches the level check.
\<close>

theorem upgrade_user_plan_downgrade_raises:
  "upgrade_user_plan
     (user_object \<lparr>user_id = 3, username = ''lin'', email = ''lin@example.org'',
                   hashed_password = ''h'', plan_type = ''premium'', api_quota = 10000,
                   is_active = True, is_admin = False\<rparr>) ''basic'' =
   (Inl (RaisedPy (AttributeError ''User'' ''plan'')),
    user_object \<lparr>user_id = 3, username = ''lin'', email = ''lin@example.org'',
                  hashed_password = ''h'', plan_type = ''premium'', api_quota = 10000,
                  is_active = True, is_admin = False\<rparr>)"
  by (rule upgrade_user_plan_row_raises) (simp add: valid_plans_def)

subsection \<open>Upload deduplication\<close>

lemma fold_max_ge: "a \<le> fold max (ids :: int list) a"
proof (induction ids arbitrary: a)
  case Nil then show ?case by simp
next
  case (Cons x xs)
  have "a \<le> max x a" by simp
  also have "max x a \<le> fold max xs (max x a)" by (rule Cons.IH)
  finally show ?case by simp
qed

lemma fold_max_mem: "i \<in> set ids \<Longrightarrow> i \<le> fold max (ids :: int list) a"
proof (induction ids arbitrary: a)
  case Nil then show ?case by simp
next
  case (Cons x xs)
  show ?case
  proof (cases "i = x")
    case True
    have "max x a \<le> fold max xs (max x a)" by (rule fold_max_ge)
    with True show ?thesis by simp
  next
    case False
    with Cons.prems have "i \<in> set xs" by simp
    then show ?thesis using Cons.IH by simp
  qed
qed

lemma fresh_id_new: "fresh_id ids \<notin> set ids"
  using fold_max_mem [of "fresh_id ids" ids 0] by (auto simp: fresh_id_def)

lemma find_None_filter: "find P xs = None \<Longrightarrow> filter P xs = []"
  by (induction xs) (auto split: if_splits)

lemma find_snoc:
  "find P (xs @ [x]) = (case find P xs of Some y \<Rightarrow> Some y | None \<Rightarrow> if P x then Some x else None)"
  by (induction xs) auto

text \<open>
  C6. Starting from a store that holds this content neither for the user nor for a second
  user: the first save creates a row; a second save of the same content by the same user
  (under any valid file name, at any time) returns that row and leaves table, disk and
  directories as they are, so the user has exactly one row for the content; a save of the
  same content by the second user creates a new row with a different key, after which
  each of the two users has exactly one row for it.
\<close>

theorem save_uploaded_file_dedup:
  assumes valid1: "validate_file cfg name1 file_content = Valid"
      and valid2: "validate_file cfg name2 file_content = Valid"
      and valid3: "validate_file cfg name3 file_content = Valid"
      and write1: "write_ok env1" and write3: "write_ok env3"
      and fresh1: "find (same_upload uid (md5_hexdigest lib file_content)) (files db) = None"
      and fresh3: "find (same_upload other (md5_hexdigest lib file_content)) (files db) = None"
      and diff: "other \<noteq> uid"
  shows "\<exists>f1 db1 f2 db2.
           save_uploaded_file cfg lib env1 db uid name1 file_content = (Inr f1, db1) \<and>
           save_uploaded_file cfg lib env2 db1 uid name2 file_content = (Inr f1, db1) \<and>
           filter (same_upload uid (md5_hexdigest lib file_content)) (files db1) = [f1] \<and>
           save_uploaded_file cfg lib env3 db1 other name3 file_content = (Inr f2, db2) \<and>
           file_id f2 \<noteq> file_id f1 \<and>
           files db2 = files db1 @ [f2] \<and>
           filter (same_upload uid (md5_hexdigest lib file_content)) (files db2) = [f1] \<and>
           filter (same_upload other (md5_hexdigest lib file_content)) (files db2) = [f2]"
proof -
  define h where "h = md5_hexdigest lib file_content"
  define udir where "udir = upload_dir cfg @ ''/user_'' @ str_int uid"
  define odir where "odir = upload_dir cfg @ ''/user_'' @ str_int other"
  define path1 where
    "path1 = udir @ ''/'' @ generate_secure_filename env1 (sanitize_filename name1) uid"
  define path3 where
    "path3 = odir @ ''/'' @ generate_secure_filename env3 (sanitize_filename name3) other"
  define f1 where
    "f1 = \<lparr>file_id = fresh_id (map file_id (files db)),
           file_user_id = uid,
           filename = generate_secure_filename env1 (sanitize_filename name1) uid,
           original_filename = sanitize_filename name1,
           file_path = path1,
           file_size = length file_content,
           file_type = get_file_type (sanitize_filename name1),
           mime_type = get_mime_type lib (sanitize_filename name1),
           file_hash = h,
           file_status = ''uploaded'',
           processed_at = None\<rparr>"
  define db1 where
    "db1 = db\<lparr>dirs := insert udir (dirs db),
              disk := (disk db)(path1 \<mapsto> file_content),
              files := files db @ [f1]\<rparr>"
  define f2 where
    "f2 = \<lparr>file_id = fresh_id (map file_id (files db1)),
           file_user_id = other,
           filename = generate_secure_filename env3 (sanitize_filename name3) other,
           original_filename = sanitize_filename name3,
           file_path = path3,
           file_size = length file_content,
           file_type = get_file_type (sanitize_filename name3),
           mime_type = get_mime_type lib (sanitize_filename name3),
           file_hash = h,
           file_status = ''uploaded'',
           processed_at = None\<rparr>"
  define db2 where
    "db2 = db1\<lparr>dirs := insert odir (dirs db1),
               disk := (disk db1)(path3 \<mapsto> file_content),
               files := files db1 @ [f2]\<rparr>"
  have same1: "same_upload uid h f1" and not3: "\<not> same_upload other h f1"
    using diff by (simp_all add: same_upload_def f1_def)
  have same2: "same_upload other h f2" and not1: "\<not> same_upload uid h f2"
    using diff by (simp_all add: same_upload_def f2_def)
  have files1: "files db1 = files db @ [f1]" and dirs1: "udir \<in> dirs db1"
    by (simp_all add: db1_def)
  have first: "save_uploaded_file cfg lib env1 db uid name1 file_content = (Inr f1, db1)"
    using valid1 write1 fresh1
    by (simp add: save_uploaded_file_def get_user_upload_dir_def Let_def h_def
        udir_def path1_def f1_def db1_def)
  have found: "find (same_upload uid h) (files db1) = Some f1"
    using fresh1 same1 by (simp add: files1 find_snoc h_def)
  have again: "db1\<lparr>dirs := insert udir (dirs db1)\<rparr> = db1"
    using dirs1 by (simp add: insert_absorb)
  have second: "save_uploaded_file cfg lib env2 db1 uid name2 file_content = (Inr f1, db1)"
    using valid2 found again
    by (simp add: save_uploaded_file_def get_user_upload_dir_def Let_def h_def udir_def)
  have one: "filter (same_upload uid h) (files db1) = [f1]"
    using find_None_filter [OF fresh1] same1 by (simp add: files1 h_def)
  have none3: "find (same_upload other h) (files db1) = None"
    using fresh3 not3 by (simp add: files1 find_snoc h_def)
  have third: "save_uploaded_file cfg lib env3 db1 other name3 file_content = (Inr f2, db2)"
    using valid3 write3 none3
    by (simp add: save_uploaded_file_def get_user_upload_dir_def Let_def h_def
        odir_def path3_def f2_def db2_def)
  have "file_id f1 \<in> set (map file_id (files db1))"
    by (simp add: files1)
  then have ids: "file_id f2 \<noteq> file_id f1"
    using fresh_id_new [of "map file_id (files db1)"] by (auto simp: f2_def)
  have files2: "files db2 = files db1 @ [f2]"
    by (simp add: db2_def)
  have two_u: "filter (same_upload uid h) (files db2) = [f1]"
    using one not1 by (simp add: files2)
  have two_o: "filter (same_upload other h) (files db2) = [f2]"
    using find_None_filter [OF none3] same2 by (simp add: files2)
  show ?thesis
    using first second one third ids files2 two_u two_o unfolding h_def by blast
qed

lemma valid_scan_pdf: "validate_file settings ''scan.pdf'' ''%PDF-1.4'' = Valid"
proof -
  have "lower (path_suffix ''scan.pdf'') = ''.pdf''"
    by (simp add: lower_def lower_char_def path_suffix_def path_name_def rfind_def)
  moreover have "validate_file_content ''%PDF-1.4'' ''.pdf''"
    by (rule validate_file_content_pdf) simp
  ultimately show ?thesis
    by (simp add: validate_file_def settings_def)
qed

theorem save_uploaded_file_dedup_witness:
  "\<exists>f1 db1 f2 db2.
     save_uploaded_file settings \<lparr>md5_hexdigest = (\<lambda>b. ''9e107d9d''), guess_type = (\<lambda>n. None)\<rparr>
       \<lparr>timestamp = ''20240101_120000'', unique_id = ''1a2b3c4d'', write_ok = True\<rparr>
       \<lparr>files = [], disk = Map.empty, dirs = {}\<rparr> 1 ''scan.pdf'' ''%PDF-1.4'' = (Inr f1, db1) \<and>
     save_uploaded_file settings \<lparr>md5_hexdigest = (\<lambda>b. ''9e107d9d''), guess_type = (\<lambda>n. None)\<rparr>
       \<lparr>timestamp = ''20240102_090000'', unique_id = ''99999999'', write_ok = True\<rparr>
       db1 1 ''scan.pdf'' ''%PDF-1.4'' = (Inr f1, db1) \<and>
     filter (same_upload 1 ''9e107d9d'') (files db1) = [f1] \<and>
     save_uploaded_file settings \<lparr>md5_hexdigest = (\<lambda>b. ''9e107d9d''), guess_type = (\<lambda>n. None)\<rparr>
       \<lparr>timestamp = ''20240103_100000'', unique_id = ''abcdef01'', write_ok = True\<rparr>
       db1 2 ''scan.pdf'' ''%PDF-1.4'' = (Inr f2, db2) \<and>
     file_id f2 \<noteq> file_id f1 \<and>
     files db2 = files db1 @ [f2] \<and>
     filter (same_upload 1 ''9e107d9d'') (files db2) = [f1] \<and>
     filter (same_upload 2 ''9e107d9d'') (files db2) = [f2]"
  using save_uploaded_file_dedup
    [of settings "''scan.pdf''" "''%PDF-1.4''" "''scan.pdf''" "''scan.pdf''"
        "\<lparr>timestamp = ''20240101_120000'', unique_id = ''1a2b3c4d'', write_ok = True\<rparr>"
        "\<lparr>timestamp = ''20240103_100000'', unique_id = ''abcdef01'', write_ok = True\<rparr>"
        1 "\<lparr>md5_hexdigest = (\<lambda>b. ''9e107d9d''), guess_type = (\<lambda>n. None)\<rparr>"
        "\<lparr>files = [], disk = Map.empty, dirs = {}\<rparr>" 2
        "\<lparr>timestamp = ''20240102_090000'', unique_id = ''99999999'', write_ok = True\<rparr>"]
  by (simp add: valid_scan_pdf)

subsection \<open>Quota rollover\<close>

lemma user_quota_object_no_marker: "user_quota_object q ''last_reset_date'' = None"
  by (simp add: user_quota_object_def)

lemma rollover_row_user_quota:
  "rollover_row today (user_quota_object q) = Inl (AttributeError ''UserQuota'' ''last_reset_date'')"
  by (simp add: rollover_row_def getattr_def user_quota_object_no_marker)

text \<open>
  On rows of the table the job fails at the first one, whatever the date: every row keeps
  its \<open>quota_used\<close> and its \<open>reset_time\<close>.
\<close>

lemma update_user_quotas_rows_fail:
  "update_user_quotas today (map user_quota_object (q # qs)) =
     (JobError (AttributeError ''UserQuota'' ''last_reset_date''), map user_quota_object (q # qs))"
  by (simp add: update_user_quotas_def rollover_row_user_quota)

text \<open>
  What the loop does to an object that does carry the attributes it reads: the markers
  move to today and to the first of this month, a counter whose marker differed is 0, and
  a second run on the same day changes nothing.
\<close>

lemma rollover_row_again:
  assumes "rollover_row today quota = Inr (quota', n)"
  shows "rollover_row today quota' = Inr (quota', 0)"
  using assms
  by (auto simp: rollover_row_def getattr_def Let_def split: option.splits if_splits)

lemma rollover_loop_again:
  "rollover_loop today qs k = Inr (qs', cnt) \<Longrightarrow> rollover_loop today qs' j = Inr (qs', j)"
proof (induction qs arbitrary: k qs' cnt j)
  case Nil
  then show ?case by simp
next
  case (Cons q qs)
  then show ?case
    by (auto split: sum.splits prod.splits dest: rollover_row_again)
qed

lemma update_user_quotas_again:
  "update_user_quotas today qs = (JobSuccess n, qs') \<Longrightarrow>
   update_user_quotas today qs' = (JobSuccess 0, qs')"
proof -
  assume "update_user_quotas today qs = (JobSuccess n, qs')"
  then have "rollover_loop today qs 0 = Inr (qs', n)"
    by (auto simp: update_user_quotas_def split: sum.splits prod.splits)
  then have "rollover_loop today qs' 0 = Inr (qs', 0)"
    by (rule rollover_loop_again)
  then show ?thesis
    by (simp add: update_user_quotas_def)
qed

lemma rollover_row_resets:
  assumes "quota ''last_reset_date'' = Some d" "quota ''monthly_reset_date'' = Some m"
  shows "\<exists>quota' n. rollover_row today quota = Inr (quota', n) \<and>
           quota' ''last_reset_date'' = Some (PDate today) \<and>
           quota' ''monthly_reset_date'' = Some (PDate (replace_day_1 today)) \<and>
           (d \<noteq> PDate today \<longrightarrow> quota' ''daily_pages_used'' = Some (PInt 0)) \<and>
           (m \<noteq> PDate (replace_day_1 today) \<longrightarrow> quota' ''monthly_pages_used'' = Some (PInt 0)) \<and>
           (d = PDate today \<longrightarrow> quota' ''daily_pages_used'' = quota ''daily_pages_used'') \<and>
           (m = PDate (replace_day_1 today) \<longrightarrow> quota' ''monthly_pages_used'' = quota ''monthly_pages_used'')"
  using assms by (auto simp: rollover_row_def getattr_def Let_def)

lemma add_days_32_march: "add_days 32 \<lparr>year = 2024, month = 3, day = 1\<rparr> = \<lparr>year = 2024, month = 4, day = 2\<rparr>"
  by (simp add: eval_nat_numeral next_day_def days_in_month_def is_leap_def)

text \<open>
  The rows registration makes for a free user on 2024-03-15; the claim's input below is
  these two rows after 5 units of use.
\<close>

lemma create_user_quota_rows:
  "user_quotas (create_user_quota settings \<lparr>year = 2024, month = 3, day = 15\<rparr>
                  \<lparr>users = [], user_quotas = []\<rparr> 1 ''free'') =
     [\<lparr>quota_id = 1, quota_user_id = 1, quota_type = ''daily'', quota_limit = 100,
       quota_used = 0, reset_time = \<lparr>year = 2024, month = 3, day = 16\<rparr>\<rparr>,
      \<lparr>quota_id = 2, quota_user_id = 1, quota_type = ''monthly'', quota_limit = 3000,
       quota_used = 0, reset_time = \<lparr>year = 2024, month = 4, day = 2\<rparr>\<rparr>]"
proof -
  have first: "replace_day_1 \<lparr>year = 2024, month = 3, day = 15\<rparr> = \<lparr>year = 2024, month = 3, day = 1\<rparr>"
    by (simp add: replace_day_1_def)
  have daily: "add_days 1 \<lparr>year = 2024, month = 3, day = 15\<rparr> = \<lparr>year = 2024, month = 3, day = 16\<rparr>"
    by (simp add: next_day_def days_in_month_def)
  show ?thesis
    unfolding create_user_quota_def Let_def first add_days_32_march daily
    by (simp add: settings_def fresh_id_def)
qed

text \<open>
  C7. The two rows that registration made for user 1 on 2024-03-15, the daily one with 5
  units used since. On 2024-03-16 the daily boundary has been crossed and the job is
  claimed to reset \<open>quota_used\<close> to 0 and move the reset marker; the code reports an
  error and both rows are as they were.
\<close>

theorem update_user_quotas_day_crossed:
  "update_user_quotas \<lparr>year = 2024, month = 3, day = 16\<rparr>
     (map user_quota_object
        [\<lparr>quota_id = 1, quota_user_id = 1, quota_type = ''daily'', quota_limit = 100,
          quota_used = 5, reset_time = \<lparr>year = 2024, month = 3, day = 16\<rparr>\<rparr>,
         \<lparr>quota_id = 2, quota_user_id = 1, quota_type = ''monthly'', quota_limit = 3000,
          quota_used = 5, reset_time = \<lparr>year = 2024, month = 4, day = 2\<rparr>\<rparr>]) =
   (JobError (AttributeError ''UserQuota'' ''last_reset_date''),
    map user_quota_object
        [\<lparr>quota_id = 1, quota_user_id = 1, quota_type = ''daily'', quota_limit = 100,
          quota_used = 5, reset_time = \<lparr>year = 2024, month = 3, day = 16\<rparr>\<rparr>,
         \<lparr>quota_id = 2, quota_user_id = 1, quota_type = ''monthly'', quota_limit = 3000,
          quota_used = 5, reset_time = \<lparr>year = 2024, month = 4, day = 2\<rparr>\<rparr>])"
  by (rule update_user_quotas_rows_fail)

subsection \<open>Cancellation\<close>

lemma find_update_first:
  "find P xs = Some x \<Longrightarrow> P (f x) \<Longrightarrow> find P (update_first P f xs) = Some (f x)"
  by (induction xs) (auto split: if_splits)

text \<open>A task row has the attributes of the class, and no \<open>celery_task_id\<close>.\<close>

lemma ocr_task_row_attrs: "dom (ocr_task_row tid fid engine st) = set OCRTask_attrs"
  by (auto simp: ocr_task_row_def OCRTask_attrs_def)

lemma ocr_task_row_no_job: "ocr_task_row tid fid engine st ''celery_task_id'' = None"
  by (simp add: ocr_task_row_def)

text \<open>No stored task row has the attribute, whatever was assigned in an earlier session.\<close>

lemma stored_task_no_job: "stored OCRTask_attrs obj ''celery_task_id'' = None"
  by (simp add: stored_def OCRTask_attrs_def restrict_map_def)

text \<open>
  The first half of the claim holds: against a task in a terminal state the cancellation
  returns its error and leaves the store as it is.
\<close>

lemma cancel_ocr_task_terminal:
  assumes "find_task db tid = Some task" "task ''status'' = Some (PStr st)"
      and "st \<in> {''completed'', ''failed'', ''cancelled''}"
  shows "cancel_ocr_task clock db tid =
           (Inr (CancelError ''task already finished or cancelled''), db)"
  using assms by (auto simp: cancel_ocr_task_def getattr_def)

text \<open>
  Against a task in any other state, the cancellation raises as soon as the task has no
  \<open>celery_task_id\<close>, and the store is as it was: the status is not set.
\<close>

lemma cancel_ocr_task_open_raises:
  assumes "find_task db tid = Some task" "task ''status'' = Some (PStr st)"
      and "st \<notin> {''completed'', ''failed'', ''cancelled''}"
      and "task ''celery_task_id'' = None"
  shows "cancel_ocr_task clock db tid = (Inl (AttributeError ''OCRTask'' ''celery_task_id''), db)"
  using assms by (auto simp: cancel_ocr_task_def getattr_def)

text \<open>
  C8. A pending task: the cancellation is claimed to set the status to cancelled and to
  stamp \<open>completed_at\<close>; the code raises \<open>AttributeError\<close> on \<open>task.celery_task_id\<close> and
  the task is still pending.
\<close>

theorem cancel_ocr_task_pending_raises:
  "cancel_ocr_task 200 sample_store 7 =
     (Inl (AttributeError ''OCRTask'' ''celery_task_id''), sample_store) \<and>
   map (\<lambda>t. t ''status'') (tasks sample_store) = [Some (PStr ''pending'')]"
  by (simp add: cancel_ocr_task_def find_task_def sample_store_def getattr_def ocr_task_row_def)

subsection \<open>Page failures\<close>

lemma construct_invalid:
  "find (\<lambda>kw. fst kw \<notin> set attrs) kwargs = Some kw \<Longrightarrow>
   construct cls attrs kwargs = Inl (TypeError (fst kw @ '' is an invalid keyword argument for '' @ cls))"
  by (simp add: construct_def)

lemma result_kwargs_invalid:
  "construct ''OCRResult'' OCRResult_attrs (result_kwargs tid i engine result) =
     Inl (TypeError ''text_content is an invalid keyword argument for OCRResult'')"
  by (simp add: construct_def result_kwargs_def OCRResult_attrs_def)

lemma failure_kwargs_invalid:
  "construct ''OCRResult'' OCRResult_attrs (failure_kwargs tid i engine e) =
     Inl (TypeError ''text_content is an invalid keyword argument for OCRResult'')"
  by (simp add: construct_def failure_kwargs_def OCRResult_attrs_def)

text \<open>
  Whether the engine reads the first page or raises on it, the loop ends there with the
  \<open>TypeError\<close> of the handler's own row, and no row is added.
\<close>

lemma worker_pages_first_page:
  "worker_pages env engine tid i (img # rest) st =
     (Some (TypeError ''text_content is an invalid keyword argument for OCRResult''), st)"
proof -
  have "\<exists>e. read_page env engine tid i img = Inl e"
    by (simp add: read_page_def result_kwargs_invalid split: sum.splits)
  then show ?thesis
    by (auto simp: failure_kwargs_invalid)
qed

lemma commit_task_results [simp]: "ocr_results (commit_task task db) = ocr_results db"
  by (simp add: commit_task_def)

text \<open>A commit stores the key and the status of the task object, and keeps the keys of the table.\<close>

lemma stored_id: "stored OCRTask_attrs obj ''id'' = obj ''id''"
  by (simp add: stored_def OCRTask_attrs_def)

lemma stored_status: "stored OCRTask_attrs obj ''status'' = obj ''status''"
  by (simp add: stored_def OCRTask_attrs_def)

lemma update_first_ids:
  "(\<And>x. P x \<Longrightarrow> g (f x) = g x) \<Longrightarrow> map g (update_first P f xs) = map g xs"
  by (induction xs) auto

lemma commit_task_ids:
  "map (\<lambda>t. t ''id'') (tasks (commit_task task db)) = map (\<lambda>t. t ''id'') (tasks db)"
proof -
  have "map (\<lambda>t. t ''id'')
          (update_first (\<lambda>t. t ''id'' = task ''id'') (\<lambda>t. stored OCRTask_attrs task) (tasks db)) =
        map (\<lambda>t. t ''id'') (tasks db)"
    by (rule update_first_ids) (simp add: stored_id)
  then show ?thesis
    by (simp add: commit_task_def)
qed

lemma commit_task_single:
  assumes "map (\<lambda>t. t ''id'') (tasks db) = [task ''id'']"
  shows "map (\<lambda>t. t ''status'') (tasks (commit_task task db)) = [task ''status'']"
proof -
  from assms obtain t where t: "tasks db = [t]" "t ''id'' = task ''id''"
    by (cases "tasks db") auto
  then show ?thesis
    by (simp add: commit_task_def stored_status)
qed

text \<open>
  So for every document of at least one page whose engine is selected,
  \<open>_process_file_ocr\<close> raises, whatever the engine does with the pages, and the result
  table is as it was.
\<close>

lemma process_file_ocr_raises:
  assumes "load_images env file_record = Inr (img # rest)"
      and "select_engine (engines env) engine_preference = Inr engine"
      and "task ''id'' = Some tid"
  shows "\<exists>db' task'.
           process_file_ocr env db task file_record engine_preference =
             (Inl (TypeError ''text_content is an invalid keyword argument for OCRResult''),
              db', task') \<and>
           ocr_results db' = ocr_results db \<and>
           map (\<lambda>t. t ''id'') (tasks db') = map (\<lambda>t. t ''id'') (tasks db) \<and>
           task' ''id'' = task ''id''"
  using assms
  by (simp add: process_file_ocr_def Let_def getattr_def worker_pages_first_page commit_task_ids
      del: worker_pages.simps)

text \<open>The handler of the worker then marks the task failed and asks for a retry.\<close>

lemma fail_task_result:
  assumes "map (\<lambda>t. t ''id'') (tasks db) = [task ''id'']" "retries < max_retries"
  shows "fst (fail_task env retries tid e db task) = WorkerRetry (60 * 2 ^ retries)"
    and "ocr_results (snd (fail_task env retries tid e db task)) = ocr_results db"
    and "map (\<lambda>t. t ''status'') (tasks (snd (fail_task env retries tid e db task))) =
           [Some (PStr ''failed'')]"
proof -
  let ?failed = "task(''status'' \<mapsto> PStr ''failed'', ''error_message'' \<mapsto> PStr (str_error e),
                      ''completed_at'' \<mapsto> PTime (now env))"
  have "map (\<lambda>t. t ''id'') (tasks db) = [?failed ''id'']"
    using assms(1) by simp
  then have "map (\<lambda>t. t ''status'') (tasks (commit_task ?failed db)) = [?failed ''status'']"
    by (rule commit_task_single [where task = ?failed and db = db])
  then show "map (\<lambda>t. t ''status'') (tasks (snd (fail_task env retries tid e db task))) =
           [Some (PStr ''failed'')]"
    using assms(2) by (simp add: fail_task_def Let_def)
  show "fst (fail_task env retries tid e db task) = WorkerRetry (60 * 2 ^ retries)"
    using assms(2) by (simp add: fail_task_def Let_def)
  show "ocr_results (snd (fail_task env retries tid e db task)) = ocr_results db"
    by (simp add: fail_task_def Let_def)
qed

text \<open>
  C2. A document of two pages, the first read by the engine and the second failing
  (N = 2, K = 1), processed by the worker on its first attempt: the task is claimed to
  end completed with two result rows; it ends failed with no result row, and the job asks
  for a retry in 60 seconds.
\<close>

theorem process_ocr_task_two_pages:
  "fst (process_ocr_task sample_env 0 sample_store 7 (Some ''paddleocr'')) = WorkerRetry 60 \<and>
   ocr_results (snd (process_ocr_task sample_env 0 sample_store 7 (Some ''paddleocr''))) = [] \<and>
   map (\<lambda>t. t ''status'')
     (tasks (snd (process_ocr_task sample_env 0 sample_store 7 (Some ''paddleocr'')))) =
     [Some (PStr ''failed'')]"
proof -
  define task1 where
    "task1 = (ocr_task_row 7 3 ''paddleocr'' ''pending'')
               (''status'' \<mapsto> PStr ''processing'', ''started_at'' \<mapsto> PTime (now sample_env),
                ''celery_task_id'' \<mapsto> PStr (request_id sample_env))"
  define db1 where "db1 = commit_task task1 sample_store"
  have id1: "task1 ''id'' = Some (PInt 7)"
    by (simp add: task1_def ocr_task_row_def)
  have ids1: "map (\<lambda>t. t ''id'') (tasks db1) = [Some (PInt 7)]"
    unfolding db1_def commit_task_ids by (simp add: sample_store_def ocr_task_row_def)
  have res1: "ocr_results db1 = []"
    by (simp add: db1_def sample_store_def)
  have files1: "ocr_files db1 = [sample_file]"
    by (simp add: db1_def commit_task_def sample_store_def)
  have sel: "select_engine (engines sample_env) (Some ''paddleocr'') = Inr ''paddleocr''"
    by (simp add: select_engine_def sample_env_def is_live_def)
  have load: "load_images sample_env sample_file = Inr [1, 2]"
    by (simp add: sample_env_def)
  from process_file_ocr_raises
    [where env = sample_env and file_record = sample_file and img = 1 and rest = "[2]"
       and engine_preference = "Some ''paddleocr''" and engine = "''paddleocr''"
       and task = task1 and tid = "PInt 7" and db = db1] load sel id1
  obtain db2 task2 where
    run: "process_file_ocr sample_env db1 task1 sample_file (Some ''paddleocr'') =
            (Inl (TypeError ''text_content is an invalid keyword argument for OCRResult''),
             db2, task2)"
    and res2: "ocr_results db2 = ocr_results db1"
    and ids2: "map (\<lambda>t. t ''id'') (tasks db2) = map (\<lambda>t. t ''id'') (tasks db1)"
    and id2: "task2 ''id'' = task1 ''id''"
    by blast
  have found: "find_task sample_store 7 = Some (ocr_task_row 7 3 ''paddleocr'' ''pending'')"
    by (simp add: find_task_def sample_store_def ocr_task_row_def)
  have pending: "getattr ''OCRTask'' (ocr_task_row 7 3 ''paddleocr'' ''pending'') ''status'' =
      Inr (PStr ''pending'')"
    by (simp add: getattr_def ocr_task_row_def)
  have fid: "getattr ''OCRTask'' task1 ''file_id'' = Inr (PInt 3)"
    by (simp add: getattr_def task1_def ocr_task_row_def)
  have file_found: "find (\<lambda>f. file_id f = 3) (ocr_files db1) = Some sample_file"
    by (simp add: files1 sample_file_def)
  have whole: "process_ocr_task sample_env 0 sample_store 7 (Some ''paddleocr'') =
      fail_task sample_env 0 7
        (TypeError ''text_content is an invalid keyword argument for OCRResult'') db2 task2"
    unfolding process_ocr_task_def
    by (simp add: found pending Let_def task1_def [symmetric] fid file_found [unfolded db1_def]
        run [unfolded db1_def])
  have ids: "map (\<lambda>t. t ''id'') (tasks db2) = [task2 ''id'']"
    by (simp add: ids2 ids1 id2 id1)
  have "(0::nat) < max_retries"
    by (simp add: max_retries_def)
  with ids show ?thesis
    unfolding whole
    using fail_task_result
      [where db = db2 and task = task2 and retries = 0 and env = sample_env and tid = 7
         and e = "TypeError ''text_content is an invalid keyword argument for OCRResult''"]
    by (simp add: res2 res1)
qed

end
